theory Spec2Isabelle
  imports Complex_Main "HOL-Library.Word" "HOL-Library.Log_Nat"
begin

unbundle bit_operations_syntax

section \<open>Macros of the header\<close>

text \<open>
  Modelled from the spec: the header \<open>Adafruit_INA219.h\<close> is not among the sources, so the
  register addresses \<open>INA219_REG_*\<close> are taken from the register map of the specification
  (CONFIGURATION 0x00, SHUNTVOLTAGE 0x01, BUSVOLTAGE 0x02, POWER 0x03, CURRENT 0x04,
  CALIBRATION 0x05).
\<close>

definition INA219_REG_CONFIG :: "8 word" where
  "INA219_REG_CONFIG = 0x00"

definition INA219_REG_SHUNTVOLTAGE :: "8 word" where
  "INA219_REG_SHUNTVOLTAGE = 0x01"

definition INA219_REG_BUSVOLTAGE :: "8 word" where
  "INA219_REG_BUSVOLTAGE = 0x02"

definition INA219_REG_POWER :: "8 word" where
  "INA219_REG_POWER = 0x03"

definition INA219_REG_CURRENT :: "8 word" where
  "INA219_REG_CURRENT = 0x04"

definition INA219_REG_CALIBRATION :: "8 word" where
  "INA219_REG_CALIBRATION = 0x05"

text \<open>
  The bit patterns of the \<open>INA219_CONFIG_*\<close> macros are declared in the same absent header
  and the specification does not give them. Every routine that uses them takes the table
  of macros as its first argument, one field per macro that the source file mentions.
\<close>

record config_macros =
  INA219_CONFIG_BVOLTAGERANGE_16V :: "16 word"
  INA219_CONFIG_BVOLTAGERANGE_32V :: "16 word"
  INA219_CONFIG_GAIN_1_40MV :: "16 word"
  INA219_CONFIG_GAIN_2_80MV :: "16 word"
  INA219_CONFIG_GAIN_4_160MV :: "16 word"
  INA219_CONFIG_GAIN_8_320MV :: "16 word"
  INA219_CONFIG_BADCRES_MASK :: "16 word"
  INA219_CONFIG_BADCRES_12BIT :: "16 word"
  INA219_CONFIG_BADCRES_12BIT_128S_69MS :: "16 word"
  INA219_CONFIG_SADCRES_MASK :: "16 word"
  INA219_CONFIG_SADCRES_12BIT_1S_532US :: "16 word"
  INA219_CONFIG_SADCRES_12BIT_128S_69MS :: "16 word"
  INA219_CONFIG_MODE_SANDBVOLT_CONTINUOUS :: "16 word"

text \<open>
  One table of macros, laid out as the CONFIG register of the INA219 data sheet (bus
  range in bit 13, gain in bits 12-11, bus ADC in bits 10-7, shunt ADC in bits 6-3, mode
  in bits 2-0). It serves to run the routines on concrete inputs.
\<close>

definition example_macros :: config_macros where
  "example_macros = \<lparr>
     INA219_CONFIG_BVOLTAGERANGE_16V = 0x0000,
     INA219_CONFIG_BVOLTAGERANGE_32V = 0x2000,
     INA219_CONFIG_GAIN_1_40MV = 0x0000,
     INA219_CONFIG_GAIN_2_80MV = 0x0800,
     INA219_CONFIG_GAIN_4_160MV = 0x1000,
     INA219_CONFIG_GAIN_8_320MV = 0x1800,
     INA219_CONFIG_BADCRES_MASK = 0x0780,
     INA219_CONFIG_BADCRES_12BIT = 0x0400,
     INA219_CONFIG_BADCRES_12BIT_128S_69MS = 0x0780,
     INA219_CONFIG_SADCRES_MASK = 0x0078,
     INA219_CONFIG_SADCRES_12BIT_1S_532US = 0x0018,
     INA219_CONFIG_SADCRES_12BIT_128S_69MS = 0x0078,
     INA219_CONFIG_MODE_SANDBVOLT_CONTINUOUS = 0x0007 \<rparr>"

section \<open>The sensor handle\<close>

text \<open>
  The members of class \<open>Adafruit_INA219\<close>. The two \<open>float\<close> scale factors are the real
  numbers the \<open>float\<close> values stand for. The presets store their literals as written
  and the unit conversions multiply without rounding; the generic calibration rounds
  every operation, as the section on floating point below describes.
  Modelled from the spec: the member declarations are in the absent header; the width of
  \<open>ina219_calValue\<close> (unsigned 16 bit) is the one the specification gives.
\<close>

record ina219 =
  ina219_i2caddr :: "8 word"
  ina219_currentLsb_mA :: real
  ina219_powerLsb_mW :: real
  ina219_calValue :: "16 word"

section \<open>The two-wire bus\<close>

text \<open>
  The \<open>Wire\<close> object and the devices behind it are outside the source file. They are
  modelled by a log of the bus operations the driver issues, and for each device address
  a register pointer and a file of 16-bit registers: a transmission of one byte sets the
  pointer, a transmission of three bytes sets the pointer and stores the last two bytes,
  high byte first, in the register pointed to; a request of two bytes returns the register
  pointed to, high byte first. The device is taken as a plain register file: what the
  chip itself does to its registers between two operations is not modelled.
\<close>

datatype wire_op =
  Transmission "8 word" "8 word list"
  | Delay nat
  | RequestFrom "8 word" "8 word"

record wire =
  dev_regs :: "8 word \<Rightarrow> 8 word \<Rightarrow> 16 word"
  dev_ptr :: "8 word \<Rightarrow> 8 word"
  wire_log :: "wire_op list"

definition bytes_to_u16 :: "8 word \<Rightarrow> 8 word \<Rightarrow> 16 word" where
  "bytes_to_u16 hi lo = push_bit 8 (ucast hi) OR ucast lo"

fun wire_transmit :: "8 word \<Rightarrow> 8 word list \<Rightarrow> wire \<Rightarrow> wire" where
  "wire_transmit a [] w = w\<lparr>wire_log := wire_log w @ [Transmission a []]\<rparr>"
| "wire_transmit a [reg, hi, lo] w =
     w\<lparr>dev_regs := (dev_regs w)(a := (dev_regs w a)(reg := bytes_to_u16 hi lo)),
       dev_ptr := (dev_ptr w)(a := reg),
       wire_log := wire_log w @ [Transmission a [reg, hi, lo]]\<rparr>"
| "wire_transmit a (reg # bs) w =
     w\<lparr>dev_ptr := (dev_ptr w)(a := reg),
       wire_log := wire_log w @ [Transmission a (reg # bs)]\<rparr>"

definition wire_request2 :: "8 word \<Rightarrow> wire \<Rightarrow> (8 word \<times> 8 word) \<times> wire" where
  "wire_request2 a w =
     (let v = dev_regs w a (dev_ptr w a)
      in ((ucast (drop_bit 8 v), ucast v),
          w\<lparr>wire_log := wire_log w @ [RequestFrom a 2]\<rparr>))"

definition delay :: "nat \<Rightarrow> wire \<Rightarrow> wire" where
  "delay ms w = w\<lparr>wire_log := wire_log w @ [Delay ms]\<rparr>"

section \<open>Register access\<close>

text \<open>
  \<open>wireWriteRegister\<close>: the register address, then the upper and the lower eight bits of
  the value, in one transmission to the address of the handle.
\<close>

definition wireWriteRegister :: "ina219 \<Rightarrow> 8 word \<Rightarrow> 16 word \<Rightarrow> wire \<Rightarrow> wire" where
  "wireWriteRegister self reg val w =
     wire_transmit (ina219_i2caddr self)
       [reg, ucast (drop_bit 8 val AND 0xFF), ucast (val AND 0xFF)] w"

text \<open>
  \<open>wireReadRegister\<close>: the register address alone, a wait of one millisecond, a request of
  two bytes, and the value put together from the two bytes read.
\<close>

definition wireReadRegister :: "ina219 \<Rightarrow> 8 word \<Rightarrow> wire \<Rightarrow> 16 word \<times> wire" where
  "wireReadRegister self reg w =
     (let w1 = wire_transmit (ina219_i2caddr self) [reg] w;
          w2 = delay 1 w1;
          ((b1, b2), w3) = wire_request2 (ina219_i2caddr self) w2
      in (push_bit 8 (ucast b1) OR ucast b2, w3))"

text \<open>
  The log entries of one register write and of one register read, as the two routines
  above issue them.
\<close>

definition write_ops :: "8 word \<Rightarrow> 8 word \<Rightarrow> 16 word \<Rightarrow> wire_op list" where
  "write_ops a reg val =
     [Transmission a [reg, ucast (drop_bit 8 val AND 0xFF), ucast (val AND 0xFF)]]"

definition read_ops :: "8 word \<Rightarrow> 8 word \<Rightarrow> wire_op list" where
  "read_ops a reg = [Transmission a [reg], Delay 1, RequestFrom a 2]"

section \<open>Floating point on the target\<close>

text \<open>
  A \<open>float\<close> or \<open>double\<close> value is modelled by the real number it stands for, and each
  arithmetic operation by the exact result followed by the rounding of the format the
  operation is carried out in. What the source file leaves to the target is collected in
  one record, which the generic calibration takes as its first argument:
  \<^item> \<open>flt\<close> and \<open>dbl\<close>, the rounding of an exact result to \<open>float\<close> and to \<open>double\<close>
    (the same format on the 8-bit AVR targets, where \<open>double\<close> is 32 bits wide);
  \<^item> \<open>pow_10\<close>, the value \<open>pow(10, digits)\<close> returns;
  \<^item> \<open>int_16bit\<close>, whether \<open>int\<close> has sixteen bits, so that \<open>(uint16_t) x + 1\<close> is
    formed in \<open>unsigned int\<close> and wraps;
  \<^item> \<open>conv_undefined\<close> and \<open>conv_infinite\<close>, the value a conversion to \<open>uint16_t\<close>
    leaves when its operand is finite and out of range, and when it is infinite; C
    leaves both undefined.
  Infinities and NaN are not values of the model. The only operation of the routine whose
  result can leave the range of \<open>float\<close> is the calibration quotient, and a quotient that
  large is out of the range of \<open>uint16_t\<close> in any case.
\<close>

record platform =
  flt :: "real \<Rightarrow> real"
  dbl :: "real \<Rightarrow> real"
  pow_10 :: "nat \<Rightarrow> real"
  int_16bit :: bool
  conv_undefined :: "real \<Rightarrow> 16 word"
  conv_infinite :: "16 word"

text \<open>
  IEEE 754 binary32, round to nearest, ties to even: the exponent of \<open>x\<close> (not below
  -126, where the subnormal numbers begin), and \<open>x\<close> rounded to a multiple of the unit
  in the last of 24 places.
\<close>

definition round_even :: "real \<Rightarrow> int" where
  "round_even y =
     (let f = \<lfloor>y\<rfloor>; d = y - of_int f
      in if d < 1 / 2 then f else if 1 / 2 < d then f + 1 else if even f then f else f + 1)"

definition float_exponent :: "real \<Rightarrow> int" where
  "float_exponent x =
     (if 1 \<le> \<bar>x\<bar> then bitlen \<lfloor>\<bar>x\<bar>\<rfloor> - 1 else - bitlen (\<lceil>1 / \<bar>x\<bar>\<rceil> - 1))"

definition binary32 :: "real \<Rightarrow> real" where
  "binary32 x =
     (if x = 0 then 0
      else let e = max (- 126) (float_exponent x)
           in of_int (round_even (x / 2 powi (e - 23))) * 2 powi (e - 23))"

text \<open>
  Two targets. On the first every operation rounds to binary32, \<open>int\<close> has sixteen bits
  and \<open>pow\<close> is taken as correctly rounded, as on an AVR board; the values given to the
  undefined conversions are arbitrary. The second computes without rounding.
\<close>

definition avr_platform :: platform where
  "avr_platform = \<lparr>flt = binary32, dbl = binary32, pow_10 = (\<lambda>n. binary32 (10 ^ n)),
     int_16bit = True, conv_undefined = (\<lambda>x. 0xFFFF), conv_infinite = 0xFFFF\<rparr>"

definition exact_platform :: platform where
  "exact_platform = \<lparr>flt = (\<lambda>x. x), dbl = (\<lambda>x. x), pow_10 = (\<lambda>n. 10 ^ n),
     int_16bit = False, conv_undefined = (\<lambda>x. 0), conv_infinite = 0\<rparr>"

section \<open>Generic calibration\<close>

text \<open>
  The conversion of a \<open>float\<close> to \<open>uint16_t\<close> discards the fractional part, towards zero.
  When the integral part is not a value of \<open>uint16_t\<close> the result is the target's.
\<close>

definition float_to_u16 :: "platform \<Rightarrow> real \<Rightarrow> 16 word" where
  "float_to_u16 P x =
     (if - 1 < x \<and> x < 65536
      then word_of_int (if x < 0 then \<lceil>x\<rceil> else \<lfloor>x\<rfloor>)
      else conv_undefined P x)"

text \<open>
  The rounding loop of \<open>setCalibration_Def\<close>, with its two variables \<open>current_lsb\<close> and
  \<open>digits\<close> (a \<open>uint16_t\<close>, so that \<open>digits++\<close> wraps). The loop is entered only while
  \<open>current_lsb > 0.0\<close>. When the integer part is not zero, it is incremented and stored
  in \<open>current_lsb\<close>, which is then divided by \<open>pow(10, digits)\<close> in \<open>double\<close>, and the loop
  is left; otherwise \<open>digits\<close> is incremented and \<open>current_lsb\<close> multiplied by ten in
  \<open>double\<close>. The loop has no bound of its own: the result is \<open>None\<close> when it never ends.
\<close>

partial_function (option) round_lsb :: "platform \<Rightarrow> real \<Rightarrow> 16 word \<Rightarrow> real option" where
  "round_lsb P current_lsb digits =
     (if current_lsb > 0
      then (let n = float_to_u16 P current_lsb
            in if n \<noteq> 0
               then (let current_lsb =
                           flt P (if int_16bit P then real (unat (n + 1))
                                  else real (unat n) + 1)
                     in Some (flt P (dbl P (current_lsb / pow_10 P (unat digits)))))
               else round_lsb P (flt P (dbl P (current_lsb * 10))) (digits + 1))
      else Some current_lsb)"

text \<open>
  \<open>setCalibration_Def\<close>. Its four arguments are \<open>float\<close> values. The variables
  \<open>i_max_possible\<close> and \<open>max_lsb\<close> are computed and never read, and are left out. The
  quotient \<open>0.04096 / (current_lsb * r_shunt)\<close> is formed in \<open>double\<close> and stored in the
  \<open>float\<close> \<open>swap\<close>; it is infinite when the divisor is zero. The routine has no exit
  before its last statement: whatever the conversion of \<open>swap\<close> leaves is cached and
  written. The comparisons of \<open>v_bus_max\<close> and \<open>v_shunt_max\<close> are with the \<open>double\<close>
  nearest to the decimal written; no \<open>float\<close> value lies between that \<open>double\<close> and the
  decimal, so that for a \<open>float\<close> argument they are comparisons with the decimal itself.
\<close>

definition setCalibration_Def ::
  "platform \<Rightarrow> config_macros \<Rightarrow> real \<Rightarrow> real \<Rightarrow> real \<Rightarrow> real \<Rightarrow> ina219 \<Rightarrow> wire \<Rightarrow>
     (ina219 \<times> wire) option" where
  "setCalibration_Def P K r_shunt v_shunt_max v_bus_max i_max_expected self w =
     (let min_lsb = flt P (i_max_expected / 32767)
      in case round_lsb P min_lsb 0 of
           None \<Rightarrow> None
         | Some current_lsb \<Rightarrow>
             let self = self\<lparr>ina219_currentLsb_mA := flt P (current_lsb * 1000)\<rparr>;
                 divisor = flt P (current_lsb * r_shunt);
                 cal = (if divisor = 0 then conv_infinite P
                        else float_to_u16 P (flt P (dbl P (dbl P 0.04096 / divisor))));
                 self = self\<lparr>ina219_calValue := cal\<rparr>;
                 power_lsb = flt P (current_lsb * 20);
                 self = self\<lparr>ina219_powerLsb_mW := flt P (power_lsb * 1000)\<rparr>;
                 w = wireWriteRegister self INA219_REG_CALIBRATION (ina219_calValue self) w;
                 bvoltage = (if v_bus_max > 16
                             then INA219_CONFIG_BVOLTAGERANGE_32V K
                             else INA219_CONFIG_BVOLTAGERANGE_16V K);
                 gain = (if v_shunt_max \<le> 0.04 then INA219_CONFIG_GAIN_1_40MV K
                         else if v_shunt_max \<le> 0.08 then INA219_CONFIG_GAIN_2_80MV K
                         else if v_shunt_max \<le> 0.160 then INA219_CONFIG_GAIN_4_160MV K
                         else INA219_CONFIG_GAIN_8_320MV K);
                 config = bvoltage OR gain OR
                          INA219_CONFIG_BADCRES_12BIT K OR
                          INA219_CONFIG_SADCRES_12BIT_1S_532US K OR
                          INA219_CONFIG_MODE_SANDBVOLT_CONTINUOUS K
             in Some (self, wireWriteRegister self INA219_REG_CONFIG config w))"

text \<open>
  Two properties of the arithmetic of a target. The first: rounding does not turn a
  number that is not positive into a positive one. The second is what the loop needs to
  come to an end: a \<open>float\<close> between 0 and 1, multiplied by ten, at least doubles and
  stays in the range of \<open>uint16_t\<close>.
\<close>

definition rounds_nonpositive :: "platform \<Rightarrow> bool" where
  "rounds_nonpositive P \<longleftrightarrow> (\<forall>x. x \<le> 0 \<longrightarrow> flt P x \<le> 0)"

definition loop_progress :: "platform \<Rightarrow> bool" where
  "loop_progress P \<longleftrightarrow>
     (\<forall>y. 0 < flt P y \<and> flt P y < 1 \<longrightarrow>
        2 * flt P y \<le> flt P (dbl P (flt P y * 10)) \<and> flt P (dbl P (flt P y * 10)) < 65536)"

section \<open>Construction\<close>

text \<open>
  The constructor assigns the address and the two scale factors. It has no assignment to
  \<open>ina219_calValue\<close>: that member keeps what the storage of the object held before, which
  is the argument \<open>mem\<close> here (zero for an object of static storage duration, anything for
  an automatic or heap object).
\<close>

definition Adafruit_INA219 :: "ina219 \<Rightarrow> 8 word \<Rightarrow> ina219" where
  "Adafruit_INA219 mem addr =
     mem\<lparr>ina219_i2caddr := addr, ina219_currentLsb_mA := 0, ina219_powerLsb_mW := 0\<rparr>"

section \<open>Preset calibrations\<close>

definition setCalibration_32V_2A :: "config_macros \<Rightarrow> ina219 \<Rightarrow> wire \<Rightarrow> ina219 \<times> wire" where
  "setCalibration_32V_2A K self w =
     (let self = self\<lparr>ina219_currentLsb_mA := 0.1\<rparr>;
          self = self\<lparr>ina219_calValue := 4096\<rparr>;
          self = self\<lparr>ina219_powerLsb_mW := 2\<rparr>;
          w = wireWriteRegister self INA219_REG_CALIBRATION (ina219_calValue self) w;
          config = INA219_CONFIG_BVOLTAGERANGE_32V K OR
                   INA219_CONFIG_GAIN_8_320MV K OR
                   INA219_CONFIG_BADCRES_12BIT K OR
                   INA219_CONFIG_SADCRES_12BIT_1S_532US K OR
                   INA219_CONFIG_MODE_SANDBVOLT_CONTINUOUS K
      in (self, wireWriteRegister self INA219_REG_CONFIG config w))"

definition setCalibration_32V_1A :: "config_macros \<Rightarrow> ina219 \<Rightarrow> wire \<Rightarrow> ina219 \<times> wire" where
  "setCalibration_32V_1A K self w =
     (let self = self\<lparr>ina219_currentLsb_mA := 0.04\<rparr>;
          self = self\<lparr>ina219_calValue := 10240\<rparr>;
          self = self\<lparr>ina219_powerLsb_mW := 0.8\<rparr>;
          w = wireWriteRegister self INA219_REG_CALIBRATION (ina219_calValue self) w;
          config = INA219_CONFIG_BVOLTAGERANGE_32V K OR
                   INA219_CONFIG_GAIN_8_320MV K OR
                   INA219_CONFIG_BADCRES_12BIT K OR
                   INA219_CONFIG_SADCRES_12BIT_1S_532US K OR
                   INA219_CONFIG_MODE_SANDBVOLT_CONTINUOUS K
      in (self, wireWriteRegister self INA219_REG_CONFIG config w))"

definition setCalibration_16V_400mA :: "config_macros \<Rightarrow> ina219 \<Rightarrow> wire \<Rightarrow> ina219 \<times> wire" where
  "setCalibration_16V_400mA K self w =
     (let self = self\<lparr>ina219_currentLsb_mA := 0.05\<rparr>;
          self = self\<lparr>ina219_calValue := 8192\<rparr>;
          self = self\<lparr>ina219_powerLsb_mW := 1\<rparr>;
          w = wireWriteRegister self INA219_REG_CALIBRATION (ina219_calValue self) w;
          config = INA219_CONFIG_BVOLTAGERANGE_16V K OR
                   INA219_CONFIG_GAIN_1_40MV K OR
                   INA219_CONFIG_BADCRES_12BIT K OR
                   INA219_CONFIG_SADCRES_12BIT_1S_532US K OR
                   INA219_CONFIG_MODE_SANDBVOLT_CONTINUOUS K
      in (self, wireWriteRegister self INA219_REG_CONFIG config w))"

text \<open>
  The two overloads of \<open>begin\<close>. \<open>Wire.begin()\<close> joins the bus and transfers nothing.
\<close>

definition begin_void :: "config_macros \<Rightarrow> ina219 \<Rightarrow> wire \<Rightarrow> ina219 \<times> wire" where
  "begin_void K self w = setCalibration_32V_2A K self w"

definition begin_addr :: "config_macros \<Rightarrow> 8 word \<Rightarrow> ina219 \<Rightarrow> wire \<Rightarrow> ina219 \<times> wire" where
  "begin_addr K addr self w = begin_void K (self\<lparr>ina219_i2caddr := addr\<rparr>) w"

section \<open>Raw readers and unit conversions\<close>

text \<open>
  The readers return \<open>int16_t\<close>: a 16-bit word that \<open>sint\<close> reads as two's complement.
  In \<open>getBusVoltage_raw\<close> the value is promoted to \<open>int\<close> for the shift and the product,
  which is at most 8191 * 4 and fits in sixteen bits, and then converted to \<open>int16_t\<close>.
\<close>

definition getBusVoltage_raw :: "ina219 \<Rightarrow> wire \<Rightarrow> 16 word \<times> wire" where
  "getBusVoltage_raw self w =
     (let (val, w) = wireReadRegister self INA219_REG_BUSVOLTAGE w
      in (word_of_int (drop_bit 3 (uint val) * 4), w))"

definition getShuntVoltage_raw :: "ina219 \<Rightarrow> wire \<Rightarrow> 16 word \<times> wire" where
  "getShuntVoltage_raw self w = wireReadRegister self INA219_REG_SHUNTVOLTAGE w"

definition getCurrent_raw :: "ina219 \<Rightarrow> wire \<Rightarrow> 16 word \<times> wire" where
  "getCurrent_raw self w =
     (let w = wireWriteRegister self INA219_REG_CALIBRATION (ina219_calValue self) w
      in wireReadRegister self INA219_REG_CURRENT w)"

definition getPower_raw :: "ina219 \<Rightarrow> wire \<Rightarrow> 16 word \<times> wire" where
  "getPower_raw self w = wireReadRegister self INA219_REG_POWER w"

definition getShuntVoltage_mV :: "ina219 \<Rightarrow> wire \<Rightarrow> real \<times> wire" where
  "getShuntVoltage_mV self w =
     (let (val, w) = getShuntVoltage_raw self w in (real_of_int (sint val) * 0.01, w))"

definition getBusVoltage_V :: "ina219 \<Rightarrow> wire \<Rightarrow> real \<times> wire" where
  "getBusVoltage_V self w =
     (let (val, w) = getBusVoltage_raw self w in (real_of_int (sint val) * 0.001, w))"

definition getCurrent_mA :: "ina219 \<Rightarrow> wire \<Rightarrow> real \<times> wire" where
  "getCurrent_mA self w =
     (let (raw, w) = getCurrent_raw self w;
          valueDec = real_of_int (sint raw);
          valueDec = valueDec * ina219_currentLsb_mA self
      in (valueDec, w))"

definition getPower_mW :: "ina219 \<Rightarrow> wire \<Rightarrow> real \<times> wire" where
  "getPower_mW self w =
     (let (raw, w) = getPower_raw self w;
          valueDec = real_of_int (sint raw);
          valueDec = valueDec * ina219_powerLsb_mW self
      in (valueDec, w))"

section \<open>Sampling-mode toggles\<close>

text \<open>
  Each toggle reads CONFIG, clears the bits of one mask, sets the bits of one macro and
  writes the result back (in C, \<open>&\<close> binds tighter than \<open>|\<close>). The two averaging toggles
  wait 69 milliseconds after the write.
\<close>

definition setAmpInstant :: "config_macros \<Rightarrow> ina219 \<Rightarrow> wire \<Rightarrow> wire" where
  "setAmpInstant K self w =
     (let (val, w) = wireReadRegister self INA219_REG_CONFIG w;
          val = (val AND NOT (INA219_CONFIG_SADCRES_MASK K)) OR
                INA219_CONFIG_SADCRES_12BIT_1S_532US K
      in wireWriteRegister self INA219_REG_CONFIG val w)"

definition setAmpAverage :: "config_macros \<Rightarrow> ina219 \<Rightarrow> wire \<Rightarrow> wire" where
  "setAmpAverage K self w =
     (let (val, w) = wireReadRegister self INA219_REG_CONFIG w;
          val = (val AND NOT (INA219_CONFIG_SADCRES_MASK K)) OR
                INA219_CONFIG_SADCRES_12BIT_128S_69MS K;
          w = wireWriteRegister self INA219_REG_CONFIG val w
      in delay 69 w)"

definition setVoltInstant :: "config_macros \<Rightarrow> ina219 \<Rightarrow> wire \<Rightarrow> wire" where
  "setVoltInstant K self w =
     (let (val, w) = wireReadRegister self INA219_REG_CONFIG w;
          val = (val AND NOT (INA219_CONFIG_BADCRES_MASK K)) OR
                INA219_CONFIG_BADCRES_12BIT K
      in wireWriteRegister self INA219_REG_CONFIG val w)"

definition setVoltAverage :: "config_macros \<Rightarrow> ina219 \<Rightarrow> wire \<Rightarrow> wire" where
  "setVoltAverage K self w =
     (let (val, w) = wireReadRegister self INA219_REG_CONFIG w;
          val = (val AND NOT (INA219_CONFIG_BADCRES_MASK K)) OR
                INA219_CONFIG_BADCRES_12BIT_128S_69MS K;
          w = wireWriteRegister self INA219_REG_CONFIG val w
      in delay 69 w)"

section \<open>Concrete inputs\<close>

text \<open>
  The chip storing a conversion result in one of its registers, a bus on which every
  register reads zero, and a handle constructed for address 0x40 in zeroed storage.
\<close>

definition device_stores :: "8 word \<Rightarrow> 8 word \<Rightarrow> 16 word \<Rightarrow> wire \<Rightarrow> wire" where
  "device_stores a reg v w = w\<lparr>dev_regs := (dev_regs w)(a := (dev_regs w a)(reg := v))\<rparr>"

definition wire0 :: wire where
  "wire0 = \<lparr>dev_regs = (\<lambda>a r. 0), dev_ptr = (\<lambda>a. 0), wire_log = []\<rparr>"

definition handle0 :: ina219 where
  "handle0 = Adafruit_INA219
     \<lparr>ina219_i2caddr = 0, ina219_currentLsb_mA = 0, ina219_powerLsb_mW = 0,
      ina219_calValue = 0\<rparr> 0x40"

section \<open>Gain selection as the specification words it\<close>

text \<open>
  The gain index of the specification: boundaries at 0.04, 0.08 and 0.16 volts select the
  indices 1, 2, 4 and 8, a tie going to the smaller range; and the macro that stands for
  an index. These two follow the specification, to be compared with the routine.
\<close>

definition spec_gain_index :: "real \<Rightarrow> nat" where
  "spec_gain_index v =
     (if v \<le> 0.04 then 1 else if v \<le> 0.08 then 2 else if v \<le> 0.16 then 4 else 8)"

definition gain_macro_of_index :: "config_macros \<Rightarrow> nat \<Rightarrow> 16 word" where
  "gain_macro_of_index K g =
     (if g = 1 then INA219_CONFIG_GAIN_1_40MV K
      else if g = 2 then INA219_CONFIG_GAIN_2_80MV K
      else if g = 4 then INA219_CONFIG_GAIN_4_160MV K
      else INA219_CONFIG_GAIN_8_320MV K)"

section \<open>Register access: what one write and one read do\<close>

lemma bytes_roundtrip:
  "push_bit 8 (ucast (ucast (drop_bit 8 v AND 0xFF :: 16 word) :: 8 word)) OR
     ucast (ucast (v AND 0xFF :: 16 word) :: 8 word) = (v :: 16 word)"
proof -
  have m: "(0xFF :: 16 word) = mask 8" by (simp add: mask_eq_exp_minus_1)
  show ?thesis
    unfolding m by (rule bit_word_eqI) (auto simp: bit_simps)
qed

lemma bytes_roundtrip_read:
  "push_bit 8 (ucast (ucast (drop_bit 8 v :: 16 word) :: 8 word)) OR
     ucast (ucast (v :: 16 word) :: 8 word) = (v :: 16 word)"
  by (rule bit_word_eqI) (auto simp: bit_simps)

lemma wireWriteRegister_eq:
  "wireWriteRegister self reg v w =
     w\<lparr>dev_regs := (dev_regs w)
         (ina219_i2caddr self := (dev_regs w (ina219_i2caddr self))(reg := v)),
       dev_ptr := (dev_ptr w)(ina219_i2caddr self := reg),
       wire_log := wire_log w @ write_ops (ina219_i2caddr self) reg v\<rparr>"
  by (simp add: wireWriteRegister_def bytes_to_u16_def bytes_roundtrip write_ops_def)

lemma wireReadRegister_eq:
  "wireReadRegister self reg w =
     (dev_regs w (ina219_i2caddr self) reg,
      w\<lparr>dev_ptr := (dev_ptr w)(ina219_i2caddr self := reg),
        wire_log := wire_log w @ read_ops (ina219_i2caddr self) reg\<rparr>)"
  by (simp add: wireReadRegister_def wire_request2_def delay_def Let_def
      bytes_roundtrip_read read_ops_def)

lemma sint_word_of_int_16:
  "- 32768 \<le> j \<Longrightarrow> j < 32768 \<Longrightarrow> sint (word_of_int j :: 16 word) = j"
  unfolding sint_sbintrunc' by (rule signed_take_bit_int_eq_self) simp_all

section \<open>Construction\<close>

text \<open>
  C3. Construction sets the two scale factors to zero, and leaves the calibration value
  as the storage held it: constructed over storage that holds 0xBEEF in that member, the
  handle has the calibration value 0xBEEF, not zero.
\<close>

theorem constructor_leaves_calValue:
  "ina219_calValue (Adafruit_INA219
     \<lparr>ina219_i2caddr = 0, ina219_currentLsb_mA = 0, ina219_powerLsb_mW = 0,
      ina219_calValue = 0xBEEF\<rparr> 0x40) = 0xBEEF \<and>
   ina219_calValue (Adafruit_INA219
     \<lparr>ina219_i2caddr = 0, ina219_currentLsb_mA = 0, ina219_powerLsb_mW = 0,
      ina219_calValue = 0xBEEF\<rparr> 0x40) \<noteq> 0 \<and>
   ina219_currentLsb_mA (Adafruit_INA219
     \<lparr>ina219_i2caddr = 0, ina219_currentLsb_mA = 0, ina219_powerLsb_mW = 0,
      ina219_calValue = 0xBEEF\<rparr> 0x40) = 0 \<and>
   ina219_powerLsb_mW (Adafruit_INA219
     \<lparr>ina219_i2caddr = 0, ina219_currentLsb_mA = 0, ina219_powerLsb_mW = 0,
      ina219_calValue = 0xBEEF\<rparr> 0x40) = 0"
  by (simp add: Adafruit_INA219_def)

lemma constructor_fields:
  "ina219_i2caddr (Adafruit_INA219 mem addr) = addr"
  "ina219_currentLsb_mA (Adafruit_INA219 mem addr) = 0"
  "ina219_powerLsb_mW (Adafruit_INA219 mem addr) = 0"
  "ina219_calValue (Adafruit_INA219 mem addr) = ina219_calValue mem"
  by (simp_all add: Adafruit_INA219_def)

section \<open>Raw readers\<close>

text \<open>
  C4. Every call of \<open>getCurrent_raw\<close>, whatever the handle and the bus hold, adds to the
  log exactly one write of the cached calibration value to CALIBRATION followed directly
  by the read of CURRENT; the device then holds the cached value in CALIBRATION, and the
  result is the content of CURRENT.
\<close>

theorem getCurrent_raw_reasserts_calibration:
  "wire_log (snd (getCurrent_raw self w)) =
     wire_log w @
       write_ops (ina219_i2caddr self) INA219_REG_CALIBRATION (ina219_calValue self) @
       read_ops (ina219_i2caddr self) INA219_REG_CURRENT \<and>
   dev_regs (snd (getCurrent_raw self w)) (ina219_i2caddr self) INA219_REG_CALIBRATION =
     ina219_calValue self \<and>
   fst (getCurrent_raw self w) = dev_regs w (ina219_i2caddr self) INA219_REG_CURRENT"
  by (simp add: getCurrent_raw_def wireWriteRegister_eq wireReadRegister_eq
      INA219_REG_CALIBRATION_def INA219_REG_CURRENT_def)

text \<open>
  C9. When the BUSVOLTAGE register holds \<open>n << 3\<close> for a number \<open>n\<close> below 8192 (so that
  the shifted value is a 16-bit register value), \<open>getBusVoltage_raw\<close> returns \<open>4 * n\<close> as
  a signed 16-bit result.
\<close>

theorem getBusVoltage_raw_roundtrip:
  assumes "n < 8192"
    and "dev_regs w (ina219_i2caddr self) INA219_REG_BUSVOLTAGE = push_bit 3 (word_of_nat n)"
  shows "sint (fst (getBusVoltage_raw self w)) = 4 * int n"
proof -
  have u: "uint (push_bit 3 (word_of_nat n) :: 16 word) = 8 * int n"
    using assms(1)
    by (simp add: push_bit_eq_mult uint_word_ariths unsigned_of_nat
        take_bit_nat_eq_self take_bit_int_eq_self)
  have r: "fst (getBusVoltage_raw self w) = word_of_int (int n * 4)"
    by (simp add: getBusVoltage_raw_def wireReadRegister_eq assms(2) u drop_bit_eq_div)
  have "sint (word_of_int (int n * 4) :: 16 word) = int n * 4"
    using assms(1) by (intro sint_word_of_int_16) simp_all
  with r show ?thesis by simp
qed

theorem getBusVoltage_raw_roundtrip_witness:
  "(1000 :: nat) < 8192 \<and>
   dev_regs (device_stores 0x40 INA219_REG_BUSVOLTAGE 8000 wire0)
     (ina219_i2caddr handle0) INA219_REG_BUSVOLTAGE = push_bit 3 (word_of_nat 1000) \<and>
   sint (fst (getBusVoltage_raw handle0
     (device_stores 0x40 INA219_REG_BUSVOLTAGE 8000 wire0))) = 4000"
proof -
  have a: "(1000 :: nat) < 8192" by simp
  have b: "dev_regs (device_stores 0x40 INA219_REG_BUSVOLTAGE 8000 wire0)
     (ina219_i2caddr handle0) INA219_REG_BUSVOLTAGE = push_bit 3 (word_of_nat 1000)"
    by (simp add: device_stores_def handle0_def Adafruit_INA219_def)
  from getBusVoltage_raw_roundtrip [OF a b] a b show ?thesis by simp
qed

text \<open>
  C10. Whatever the BUSVOLTAGE register holds, the signed result of \<open>getBusVoltage_raw\<close>
  is not negative, is a multiple of 4 and is at most 32764.
\<close>

theorem getBusVoltage_raw_range:
  "0 \<le> sint (fst (getBusVoltage_raw self w)) \<and>
   4 dvd sint (fst (getBusVoltage_raw self w)) \<and>
   sint (fst (getBusVoltage_raw self w)) \<le> 32764"
proof -
  define v where "v = dev_regs w (ina219_i2caddr self) INA219_REG_BUSVOLTAGE"
  define k where "k = drop_bit 3 (uint v)"
  have r: "fst (getBusVoltage_raw self w) = word_of_int (k * 4)"
    by (simp add: getBusVoltage_raw_def wireReadRegister_eq v_def k_def)
  have "uint v < 65536" "0 \<le> uint v" using uint_bounded [of v] by simp_all
  then have k: "0 \<le> k" "k < 8192"
    by (simp_all add: k_def drop_bit_eq_div pos_imp_zdiv_nonneg_iff)
  have "sint (word_of_int (k * 4) :: 16 word) = k * 4"
    using k by (intro sint_word_of_int_16) simp_all
  with r k show ?thesis by simp
qed

section \<open>Preset calibrations\<close>

lemma setCalibration_32V_2A_eq:
  "setCalibration_32V_2A K self w =
     (self\<lparr>ina219_currentLsb_mA := 0.1, ina219_calValue := 4096, ina219_powerLsb_mW := 2\<rparr>,
      wireWriteRegister self INA219_REG_CONFIG
        (INA219_CONFIG_BVOLTAGERANGE_32V K OR INA219_CONFIG_GAIN_8_320MV K OR
         INA219_CONFIG_BADCRES_12BIT K OR INA219_CONFIG_SADCRES_12BIT_1S_532US K OR
         INA219_CONFIG_MODE_SANDBVOLT_CONTINUOUS K)
        (wireWriteRegister self INA219_REG_CALIBRATION 4096 w))"
  by (simp add: setCalibration_32V_2A_def wireWriteRegister_def Let_def)

lemma setCalibration_32V_1A_eq:
  "setCalibration_32V_1A K self w =
     (self\<lparr>ina219_currentLsb_mA := 0.04, ina219_calValue := 10240, ina219_powerLsb_mW := 0.8\<rparr>,
      wireWriteRegister self INA219_REG_CONFIG
        (INA219_CONFIG_BVOLTAGERANGE_32V K OR INA219_CONFIG_GAIN_8_320MV K OR
         INA219_CONFIG_BADCRES_12BIT K OR INA219_CONFIG_SADCRES_12BIT_1S_532US K OR
         INA219_CONFIG_MODE_SANDBVOLT_CONTINUOUS K)
        (wireWriteRegister self INA219_REG_CALIBRATION 10240 w))"
  by (simp add: setCalibration_32V_1A_def wireWriteRegister_def Let_def)

lemma setCalibration_16V_400mA_eq:
  "setCalibration_16V_400mA K self w =
     (self\<lparr>ina219_currentLsb_mA := 0.05, ina219_calValue := 8192, ina219_powerLsb_mW := 1\<rparr>,
      wireWriteRegister self INA219_REG_CONFIG
        (INA219_CONFIG_BVOLTAGERANGE_16V K OR INA219_CONFIG_GAIN_1_40MV K OR
         INA219_CONFIG_BADCRES_12BIT K OR INA219_CONFIG_SADCRES_12BIT_1S_532US K OR
         INA219_CONFIG_MODE_SANDBVOLT_CONTINUOUS K)
        (wireWriteRegister self INA219_REG_CALIBRATION 8192 w))"
  by (simp add: setCalibration_16V_400mA_def wireWriteRegister_def Let_def)

lemma two_writes_log:
  "wire_log (wireWriteRegister self INA219_REG_CONFIG c
      (wireWriteRegister self INA219_REG_CALIBRATION v w)) =
     wire_log w @ write_ops (ina219_i2caddr self) INA219_REG_CALIBRATION v @
       write_ops (ina219_i2caddr self) INA219_REG_CONFIG c"
  by (simp add: wireWriteRegister_eq)

lemma two_writes_regs:
  "dev_regs (wireWriteRegister self INA219_REG_CONFIG c
      (wireWriteRegister self INA219_REG_CALIBRATION v w)) (ina219_i2caddr self) =
     (dev_regs w (ina219_i2caddr self))(INA219_REG_CALIBRATION := v, INA219_REG_CONFIG := c)"
  by (simp add: wireWriteRegister_eq)

text \<open>
  C5. Each preset sets its three literal constants in the handle and writes the
  calibration value to CALIBRATION, then CONFIG: 32V/2A has 0.1 mA, 2 mW and 4096;
  32V/1A has 0.04 mA, 0.8 mW and 10240; 16V/400mA has 0.05 mA, 1 mW and 8192.
\<close>

theorem preset_calibrations_constants:
  "ina219_currentLsb_mA (fst (setCalibration_32V_2A K self w)) = 0.1 \<and>
   ina219_powerLsb_mW (fst (setCalibration_32V_2A K self w)) = 2 \<and>
   ina219_calValue (fst (setCalibration_32V_2A K self w)) = 4096 \<and>
   dev_regs (snd (setCalibration_32V_2A K self w)) (ina219_i2caddr self)
     INA219_REG_CALIBRATION = 4096 \<and>
   wire_log (snd (setCalibration_32V_2A K self w)) =
     wire_log w @ write_ops (ina219_i2caddr self) INA219_REG_CALIBRATION 4096 @
       write_ops (ina219_i2caddr self) INA219_REG_CONFIG
         (INA219_CONFIG_BVOLTAGERANGE_32V K OR INA219_CONFIG_GAIN_8_320MV K OR
          INA219_CONFIG_BADCRES_12BIT K OR INA219_CONFIG_SADCRES_12BIT_1S_532US K OR
          INA219_CONFIG_MODE_SANDBVOLT_CONTINUOUS K) \<and>
   ina219_currentLsb_mA (fst (setCalibration_32V_1A K self w)) = 0.04 \<and>
   ina219_powerLsb_mW (fst (setCalibration_32V_1A K self w)) = 0.8 \<and>
   ina219_calValue (fst (setCalibration_32V_1A K self w)) = 10240 \<and>
   dev_regs (snd (setCalibration_32V_1A K self w)) (ina219_i2caddr self)
     INA219_REG_CALIBRATION = 10240 \<and>
   wire_log (snd (setCalibration_32V_1A K self w)) =
     wire_log w @ write_ops (ina219_i2caddr self) INA219_REG_CALIBRATION 10240 @
       write_ops (ina219_i2caddr self) INA219_REG_CONFIG
         (INA219_CONFIG_BVOLTAGERANGE_32V K OR INA219_CONFIG_GAIN_8_320MV K OR
          INA219_CONFIG_BADCRES_12BIT K OR INA219_CONFIG_SADCRES_12BIT_1S_532US K OR
          INA219_CONFIG_MODE_SANDBVOLT_CONTINUOUS K) \<and>
   ina219_currentLsb_mA (fst (setCalibration_16V_400mA K self w)) = 0.05 \<and>
   ina219_powerLsb_mW (fst (setCalibration_16V_400mA K self w)) = 1 \<and>
   ina219_calValue (fst (setCalibration_16V_400mA K self w)) = 8192 \<and>
   dev_regs (snd (setCalibration_16V_400mA K self w)) (ina219_i2caddr self)
     INA219_REG_CALIBRATION = 8192 \<and>
   wire_log (snd (setCalibration_16V_400mA K self w)) =
     wire_log w @ write_ops (ina219_i2caddr self) INA219_REG_CALIBRATION 8192 @
       write_ops (ina219_i2caddr self) INA219_REG_CONFIG
         (INA219_CONFIG_BVOLTAGERANGE_16V K OR INA219_CONFIG_GAIN_1_40MV K OR
          INA219_CONFIG_BADCRES_12BIT K OR INA219_CONFIG_SADCRES_12BIT_1S_532US K OR
          INA219_CONFIG_MODE_SANDBVOLT_CONTINUOUS K)"
  unfolding setCalibration_32V_2A_eq setCalibration_32V_1A_eq setCalibration_16V_400mA_eq
    fst_conv snd_conv two_writes_log two_writes_regs
  by (simp add: INA219_REG_CALIBRATION_def INA219_REG_CONFIG_def)

section \<open>Unit conversions\<close>

text \<open>
  C6. \<open>getCurrent_mA\<close> returns the raw CURRENT reading, read as a signed 16-bit number,
  times the cached current LSB, and \<open>getPower_mW\<close> the raw POWER reading times the
  cached power LSB, for every handle and every register content. After
  \<open>setCalibration_32V_2A\<close> that is the reading times 0.1 and times 2: a CURRENT reading
  of 100 gives 10 mA and a POWER reading of 50 gives 100 mW.
\<close>

theorem preset_32V_2A_conversions:
  "fst (getCurrent_mA self w) =
     real_of_int (sint (dev_regs w (ina219_i2caddr self) INA219_REG_CURRENT)) *
       ina219_currentLsb_mA self \<and>
   fst (getPower_mW self w) =
     real_of_int (sint (dev_regs w (ina219_i2caddr self) INA219_REG_POWER)) *
       ina219_powerLsb_mW self \<and>
   fst (getCurrent_mA (fst (setCalibration_32V_2A K self w))
         (device_stores (ina219_i2caddr self) INA219_REG_CURRENT v
            (snd (setCalibration_32V_2A K self w)))) = real_of_int (sint v) * 0.1 \<and>
   fst (getPower_mW (fst (setCalibration_32V_2A K self w))
         (device_stores (ina219_i2caddr self) INA219_REG_POWER v
            (snd (setCalibration_32V_2A K self w)))) = real_of_int (sint v) * 2 \<and>
   fst (getCurrent_mA (fst (setCalibration_32V_2A K self w))
         (device_stores (ina219_i2caddr self) INA219_REG_CURRENT 100
            (snd (setCalibration_32V_2A K self w)))) = 10 \<and>
   fst (getPower_mW (fst (setCalibration_32V_2A K self w))
         (device_stores (ina219_i2caddr self) INA219_REG_POWER 50
            (snd (setCalibration_32V_2A K self w)))) = 100"
  unfolding setCalibration_32V_2A_eq fst_conv snd_conv
  by (simp add: getCurrent_mA_def getCurrent_raw_def getPower_mW_def getPower_raw_def
      wireWriteRegister_eq wireReadRegister_eq device_stores_def
      INA219_REG_CALIBRATION_def INA219_REG_CURRENT_def
      INA219_REG_POWER_def INA219_REG_CONFIG_def)

section \<open>Floating point on the target\<close>

lemma exact_platform_simps:
  "flt exact_platform x = x" "dbl exact_platform x = x" "pow_10 exact_platform n = 10 ^ n"
  "int_16bit exact_platform = False" "conv_undefined exact_platform x = 0"
  "conv_infinite exact_platform = 0"
  by (simp_all add: exact_platform_def)

lemma loop_progress_exact: "loop_progress exact_platform"
  by (simp add: loop_progress_def exact_platform_simps)

lemma round_even_nonpos: "y \<le> 0 \<Longrightarrow> round_even y \<le> 0"
proof -
  assume y: "y \<le> 0"
  show ?thesis
  proof (cases "\<lfloor>y\<rfloor> = 0")
    case True
    with y have "y = 0" by linarith
    then show ?thesis by (simp add: round_even_def)
  next
    case False
    with y have "\<lfloor>y\<rfloor> \<le> - 1" by linarith
    then show ?thesis by (simp add: round_even_def Let_def)
  qed
qed

lemma binary32_nonpos: "x \<le> 0 \<Longrightarrow> binary32 x \<le> 0"
proof -
  assume x: "x \<le> 0"
  have "real_of_int (round_even (x / 2 powi k)) * 2 powi k \<le> 0" for k :: int
  proof -
    have "x / 2 powi k \<le> 0" using x by (simp add: divide_nonpos_pos)
    then have "real_of_int (round_even (x / 2 powi k)) \<le> 0"
      using round_even_nonpos by simp
    then show ?thesis by (simp add: mult_nonpos_nonneg)
  qed
  then show ?thesis by (simp add: binary32_def Let_def)
qed

lemma rounds_nonpositive_avr: "rounds_nonpositive avr_platform"
  by (simp add: rounds_nonpositive_def avr_platform_def binary32_nonpos)

lemma rounds_nonpositive_exact: "rounds_nonpositive exact_platform"
  by (simp add: rounds_nonpositive_def exact_platform_simps)

lemma float_exponent_lower:
  assumes "z \<noteq> 0"
  shows "2 powi (float_exponent z) \<le> \<bar>z\<bar>"
proof (cases "1 \<le> \<bar>z\<bar>")
  case True
  define m where "m = \<lfloor>\<bar>z\<bar>\<rfloor>"
  from True have m: "0 < m" unfolding m_def by linarith
  from bitlen_bounds [OF m] have b: "2 ^ nat (bitlen m - 1) \<le> m" ..
  from m have "1 \<le> bitlen m" by (simp add: bitlen_alt_def)
  then have "2 powi (bitlen m - 1) = (2 :: real) ^ nat (bitlen m - 1)"
    by (simp add: power_int_def)
  also have "\<dots> = real_of_int (2 ^ nat (bitlen m - 1))" by simp
  also have "\<dots> \<le> real_of_int m" using b by (simp only: of_int_le_iff)
  also have "\<dots> \<le> \<bar>z\<bar>" unfolding m_def by linarith
  finally show ?thesis using True by (simp add: float_exponent_def m_def)
next
  case False
  define a where "a = \<bar>z\<bar>"
  from False assms have a: "0 < a" "a < 1" unfolding a_def by simp_all
  define n where "n = \<lceil>1 / a\<rceil> - 1"
  from a have "1 < 1 / a" by simp
  then have n: "0 < n" unfolding n_def by linarith
  define k where "k = bitlen n"
  from n have k: "1 \<le> k" unfolding k_def by (simp add: bitlen_alt_def)
  from bitlen_bounds [OF n] have "n < 2 ^ nat k" unfolding k_def ..
  then have "\<lceil>1 / a\<rceil> \<le> 2 ^ nat k" unfolding n_def by simp
  then have "real_of_int \<lceil>1 / a\<rceil> \<le> real_of_int (2 ^ nat k)" by (simp only: of_int_le_iff)
  moreover have "1 / a \<le> real_of_int \<lceil>1 / a\<rceil>" by linarith
  moreover have "real_of_int (2 ^ nat k) = 2 ^ nat k" by simp
  ultimately have "1 / a \<le> 2 ^ nat k" by linarith
  with a have "1 / 2 ^ nat k \<le> a"
    by (simp add: field_simps)
  moreover from k have "2 powi (- k) = 1 / (2 :: real) ^ nat k"
    by (simp add: power_int_def inverse_eq_divide power_one_over)
  ultimately have "2 powi (- k) \<le> a" by simp
  then show ?thesis using False by (simp add: float_exponent_def a_def n_def k_def)
qed

lemma round_even_error: "\<bar>real_of_int (round_even t) - t\<bar> \<le> 1 / 2"
proof -
  have "real_of_int \<lfloor>t\<rfloor> \<le> t" "t < real_of_int \<lfloor>t\<rfloor> + 1" by linarith+
  then show ?thesis by (auto simp: round_even_def Let_def)
qed

lemma binary32_error:
  assumes "z \<noteq> 0"
  shows "\<bar>binary32 z - z\<bar> \<le> 2 powi (max (- 126) (float_exponent z) - 23) / 2"
proof -
  define q :: real where "q = 2 powi (max (- 126) (float_exponent z) - 23)"
  have q: "0 < q" unfolding q_def by simp
  have b: "binary32 z = real_of_int (round_even (z / q)) * q"
    using assms by (simp add: binary32_def Let_def q_def)
  have "\<bar>real_of_int (round_even (z / q)) * q - z\<bar> =
      \<bar>real_of_int (round_even (z / q)) - z / q\<bar> * q"
  proof -
    have "real_of_int (round_even (z / q)) * q - z =
        (real_of_int (round_even (z / q)) - z / q) * q"
      using q by (simp add: field_simps)
    then show ?thesis using q by (simp add: abs_mult)
  qed
  also have "\<dots> \<le> 1 / 2 * q"
    using round_even_error [of "z / q"] q by (intro mult_right_mono) simp_all
  finally show ?thesis unfolding b q_def by simp
qed

lemma binary32_relative:
  assumes "2 powi (- 147) \<le> z"
  shows "7 / 8 * z \<le> binary32 z \<and> binary32 z \<le> 9 / 8 * z"
proof -
  have zpos: "0 < z" using assms by (rule less_le_trans [rotated]) simp
  then have nz: "z \<noteq> 0" by simp
  have "2 powi (max (- 126) (float_exponent z) - 23) / 2 \<le> z / 8"
  proof (cases "- 126 \<le> float_exponent z")
    case True
    then have "2 powi (max (- 126) (float_exponent z) - 23) =
        2 powi (float_exponent z) * (2 :: real) powi (- 23)"
      by (simp add: max_def power_int_diff power_int_minus field_simps)
    also have "\<dots> \<le> z * 2 powi (- 23)"
      using float_exponent_lower [OF nz] zpos by (intro mult_right_mono) simp_all
    finally show ?thesis using zpos by (simp add: power_int_minus field_simps)
  next
    case False
    then have "2 powi (max (- 126) (float_exponent z) - 23) = (2 :: real) powi (- 149)"
      by (simp add: max_def)
    moreover have "(2 :: real) powi (- 149) / 2 = 2 powi (- 147) / 8"
      by (simp add: power_int_minus)
    ultimately show ?thesis using assms by simp
  qed
  with binary32_error [OF nz] have "\<bar>binary32 z - z\<bar> \<le> z / 8" by linarith
  then have "binary32 z - z \<le> z / 8" and "z - binary32 z \<le> z / 8" by linarith+
  then show ?thesis by linarith
qed

lemma binary32_positive_lower:
  assumes "0 < binary32 y"
  shows "2 powi (- 149) \<le> binary32 y"
proof -
  from assms have ny: "y \<noteq> 0" by (auto simp: binary32_def)
  define e where "e = max (- 126) (float_exponent y)"
  define k where "k = round_even (y / 2 powi (e - 23))"
  have b: "binary32 y = real_of_int k * 2 powi (e - 23)"
    using ny by (simp add: binary32_def Let_def e_def k_def)
  have qpos: "0 < (2 :: real) powi (e - 23)" by simp
  from assms b qpos have "0 < real_of_int k" by (simp add: zero_less_mult_iff)
  then have "0 < k" by simp
  then have "1 \<le> k" by simp
  then have "1 \<le> real_of_int k" by simp
  moreover have "(2 :: real) powi (- 149) \<le> 2 powi (e - 23)"
    by (rule power_int_increasing) (simp_all add: e_def)
  ultimately have "2 powi (- 149) \<le> real_of_int k * 2 powi (e - 23)"
    using qpos by (smt (verit) mult_le_cancel_right1 mult_left_mono mult.commute)
  then show ?thesis unfolding b .
qed


lemma loop_progress_avr: "loop_progress avr_platform"
  unfolding loop_progress_def
proof (intro allI impI)
  fix y
  assume "0 < flt avr_platform y \<and> flt avr_platform y < 1"
  then have x: "0 < binary32 y" "binary32 y < 1" by (simp_all add: avr_platform_def)
  define x where "x = binary32 y"
  define w1 where "w1 = binary32 (x * 10)"
  define w2 where "w2 = binary32 w1"
  have lo: "2 powi (- 149) \<le> x" unfolding x_def using x(1) by (rule binary32_positive_lower)
  have p: "(2 :: real) powi (- 147) = 4 * 2 powi (- 149)" by (simp add: power_int_minus)
  have xpos: "0 < x" using x(1) by (simp add: x_def)
  from lo p have "2 powi (- 147) \<le> x * 10" using xpos by linarith
  from binary32_relative [OF this]
  have w1: "7 / 8 * (x * 10) \<le> w1" "w1 \<le> 9 / 8 * (x * 10)" unfolding w1_def by simp_all
  from lo p w1(1) have "2 powi (- 147) \<le> w1" using xpos by linarith
  from binary32_relative [OF this]
  have w2: "7 / 8 * w1 \<le> w2" "w2 \<le> 9 / 8 * w1" unfolding w2_def by simp_all
  from w1 w2 xpos x(2) have "2 * x \<le> w2" "w2 < 65536" unfolding x_def by linarith+
  then show "2 * flt avr_platform y \<le> flt avr_platform (dbl avr_platform (flt avr_platform y * 10)) \<and>
     flt avr_platform (dbl avr_platform (flt avr_platform y * 10)) < 65536"
    by (simp add: avr_platform_def x_def w1_def w2_def)
qed

section \<open>Generic calibration\<close>

lemma float_to_u16_nonneg:
  "0 \<le> x \<Longrightarrow> x < 65536 \<Longrightarrow> float_to_u16 P x = word_of_int \<lfloor>x\<rfloor>"
  by (simp add: float_to_u16_def)

lemma floor_word_zero_iff:
  assumes "0 \<le> (x :: real)" "x < 65536"
  shows "(word_of_int \<lfloor>x\<rfloor> :: 16 word) = 0 \<longleftrightarrow> x < 1"
proof -
  define k where "k = \<lfloor>x\<rfloor>"
  from assms have k: "0 \<le> k" "k < 65536" unfolding k_def by linarith+
  have "(word_of_int k :: 16 word) = 0 \<longleftrightarrow> k mod 65536 = 0"
    by (simp add: word_of_int_eq_0_iff mod_eq_0_iff_dvd)
  also have "\<dots> \<longleftrightarrow> k = 0" using k by simp
  also have "\<dots> \<longleftrightarrow> x < 1" using assms unfolding k_def by linarith
  finally show ?thesis unfolding k_def .
qed

lemma round_lsb_nonpos: "x \<le> 0 \<Longrightarrow> round_lsb P x d = Some x"
  by (subst round_lsb.simps) simp

lemma round_lsb_small:
  "0 < x \<Longrightarrow> x < 1 \<Longrightarrow> round_lsb P x d = round_lsb P (flt P (dbl P (x * 10))) (d + 1)"
  by (subst round_lsb.simps) (simp add: float_to_u16_nonneg floor_word_zero_iff)

lemma round_lsb_hit:
  assumes "1 \<le> x" "x < 65536"
  shows "round_lsb P x d =
    Some (flt P (dbl P (flt P (if int_16bit P then real (unat (word_of_int \<lfloor>x\<rfloor> + 1 :: 16 word))
                               else real (unat (word_of_int \<lfloor>x\<rfloor> :: 16 word)) + 1) /
                        pow_10 P (unat d))))"
proof -
  have "(word_of_int \<lfloor>x\<rfloor> :: 16 word) \<noteq> 0"
    using assms by (simp add: floor_word_zero_iff)
  then show ?thesis
    using assms by (subst round_lsb.simps) (simp add: float_to_u16_nonneg Let_def)
qed

lemma round_lsb_returns:
  assumes "loop_progress P" and "x = flt P y" and "x < 65536"
  shows "\<exists>c. round_lsb P x d = Some c"
  using assms(2,3)
proof (induction "nat \<lceil>1 / x\<rceil>" arbitrary: x y d rule: less_induct)
  case less
  show ?case
  proof (cases "x \<le> 0")
    case True
    then show ?thesis by (simp add: round_lsb_nonpos)
  next
    case False
    then have pos: "0 < x" by simp
    show ?thesis
    proof (cases "1 \<le> x")
      case True
      with less.prems show ?thesis by (simp add: round_lsb_hit)
    next
      case False
      then have small: "x < 1" by simp
      define x' where "x' = flt P (dbl P (x * 10))"
      from assms(1) pos small less.prems(1)
      have grow: "2 * x \<le> x'" and top: "x' < 65536"
        unfolding loop_progress_def x'_def by blast+
      have step: "round_lsb P x d = round_lsb P x' (d + 1)"
        unfolding x'_def using pos small by (rule round_lsb_small)
      have "nat \<lceil>1 / x'\<rceil> < nat \<lceil>1 / x\<rceil>"
      proof -
        from pos grow have x'pos: "0 < x'" by linarith
        have "1 / x' \<le> 1 / (2 * x)"
          using pos grow by (simp add: frac_le)
        then have "\<lceil>1 / x'\<rceil> \<le> \<lceil>1 / (2 * x)\<rceil>" by (rule ceiling_mono)
        moreover have "\<lceil>1 / (2 * x)\<rceil> < \<lceil>1 / x\<rceil>"
        proof -
          define t where "t = 1 / x"
          from pos small have t1: "1 < t" by (simp add: t_def)
          have e: "1 / (2 * x) = t / 2" by (simp add: t_def)
          have "real_of_int \<lceil>t / 2\<rceil> < t / 2 + 1" by linarith
          moreover have "t \<le> real_of_int \<lceil>t\<rceil>" by linarith
          ultimately have "\<lceil>t / 2\<rceil> < \<lceil>t\<rceil>"
          proof (cases "t \<le> 2")
            case True
            then have "\<lceil>t / 2\<rceil> \<le> 1" by (simp add: ceiling_le_iff)
            moreover from t1 have "2 \<le> \<lceil>t\<rceil>" by linarith
            ultimately show ?thesis by linarith
          next
            case False
            then have "t / 2 + 1 \<le> t" by simp
            with \<open>real_of_int \<lceil>t / 2\<rceil> < t / 2 + 1\<close> \<open>t \<le> real_of_int \<lceil>t\<rceil>\<close>
            show ?thesis by linarith
          qed
          then show ?thesis unfolding e t_def .
        qed
        moreover have "0 < \<lceil>1 / x\<rceil>" using pos small by (simp add: ceiling_less_iff)
        ultimately show ?thesis by linarith
      qed
      from less.hyps [OF this x'_def top] step show ?thesis by simp
    qed
  qed
qed

lemma setCalibration_Def_run:
  assumes "round_lsb P (flt P (i_max_expected / 32767)) 0 = Some current_lsb"
  shows "setCalibration_Def P K r_shunt v_shunt_max v_bus_max i_max_expected self w =
    Some (self\<lparr>ina219_currentLsb_mA := flt P (current_lsb * 1000),
            ina219_calValue :=
              (if flt P (current_lsb * r_shunt) = 0 then conv_infinite P
               else float_to_u16 P
                      (flt P (dbl P (dbl P 0.04096 / flt P (current_lsb * r_shunt))))),
            ina219_powerLsb_mW := flt P (flt P (current_lsb * 20) * 1000)\<rparr>,
     wireWriteRegister self INA219_REG_CONFIG
       ((if v_bus_max > 16 then INA219_CONFIG_BVOLTAGERANGE_32V K
         else INA219_CONFIG_BVOLTAGERANGE_16V K) OR
        (if v_shunt_max \<le> 0.04 then INA219_CONFIG_GAIN_1_40MV K
         else if v_shunt_max \<le> 0.08 then INA219_CONFIG_GAIN_2_80MV K
         else if v_shunt_max \<le> 0.160 then INA219_CONFIG_GAIN_4_160MV K
         else INA219_CONFIG_GAIN_8_320MV K) OR
        INA219_CONFIG_BADCRES_12BIT K OR
        INA219_CONFIG_SADCRES_12BIT_1S_532US K OR
        INA219_CONFIG_MODE_SANDBVOLT_CONTINUOUS K)
       (wireWriteRegister self INA219_REG_CALIBRATION
          (if flt P (current_lsb * r_shunt) = 0 then conv_infinite P
           else float_to_u16 P
                  (flt P (dbl P (dbl P 0.04096 / flt P (current_lsb * r_shunt))))) w))"
  using assms
  by (simp add: setCalibration_Def_def Let_def wireWriteRegister_def)


lemma round_lsb_step:
  assumes "0 < x" and "x < 1" and "flt P (dbl P (x * 10)) = x'" and "d + 1 = d'"
  shows "round_lsb P x d = round_lsb P x' d'"
  using round_lsb_small [OF assms(1,2)] assms(3,4) by simp

lemma round_lsb_exit:
  assumes "1 \<le> x" and "x < 65536"
    and "flt P (dbl P (flt P (if int_16bit P
        then real (unat (word_of_int \<lfloor>x\<rfloor> + 1 :: 16 word))
        else real (unat (word_of_int \<lfloor>x\<rfloor> :: 16 word)) + 1) /
      pow_10 P (unat d))) = c"
  shows "round_lsb P x d = Some c"
  using round_lsb_hit [OF assms(1,2)] assms(3) by simp

lemma two_writes_cal:
  "dev_regs (wireWriteRegister self INA219_REG_CONFIG c
      (wireWriteRegister self INA219_REG_CALIBRATION v w)) (ina219_i2caddr self)
     INA219_REG_CALIBRATION = v"
  unfolding two_writes_regs
  by (simp add: INA219_REG_CALIBRATION_def INA219_REG_CONFIG_def)

lemma two_writes_config:
  "dev_regs (wireWriteRegister self INA219_REG_CONFIG c
      (wireWriteRegister self INA219_REG_CALIBRATION v w)) (ina219_i2caddr self)
     INA219_REG_CONFIG = c"
  unfolding two_writes_regs by simp

lemma gain_chain_eq:
  "(if v_shunt_max \<le> 0.04 then INA219_CONFIG_GAIN_1_40MV K
    else if v_shunt_max \<le> 0.08 then INA219_CONFIG_GAIN_2_80MV K
    else if v_shunt_max \<le> 0.160 then INA219_CONFIG_GAIN_4_160MV K
    else INA219_CONFIG_GAIN_8_320MV K) = gain_macro_of_index K (spec_gain_index v_shunt_max)"
  by (simp add: gain_macro_of_index_def spec_gain_index_def)

lemma setCalibration_Def_Some:
  assumes "setCalibration_Def P K r_shunt v_shunt_max v_bus_max i_max_expected self w =
    Some (self', w')"
  obtains current_lsb where
    "round_lsb P (flt P (i_max_expected / 32767)) 0 = Some current_lsb"
  using assms by (auto simp: setCalibration_Def_def Let_def split: option.splits)


lemma two_writes_log_config:
  "wire_log (wireWriteRegister self INA219_REG_CONFIG c
      (wireWriteRegister self INA219_REG_CALIBRATION v w)) =
     wire_log w @ write_ops (ina219_i2caddr self) INA219_REG_CALIBRATION v @
       write_ops (ina219_i2caddr self) INA219_REG_CONFIG
         (dev_regs (wireWriteRegister self INA219_REG_CONFIG c
            (wireWriteRegister self INA219_REG_CALIBRATION v w)) (ina219_i2caddr self)
          INA219_REG_CONFIG)"
  unfolding two_writes_regs two_writes_log by simp

subsection \<open>Runs on the AVR target\<close>

text \<open>
  The generic calibration run on the AVR target, every operation rounded to binary32,
  at six inputs. The arguments written \<open>binary32 d\<close> are the \<open>float\<close> values of the
  decimals \<open>d\<close>.
\<close>

lemma loop_avr_2A:
  "round_lsb avr_platform (flt avr_platform (2 / 32767)) 0 = Some (9620727 / 137438953472)"
proof -
  have s0: "flt avr_platform (2 / 32767) = 32769 / 536870912"
    by code_simp
  have s1: "flt avr_platform (dbl avr_platform ((32769 / 536870912) * 10)) = 163845 / 268435456"
    by code_simp
  have t1: "round_lsb avr_platform (32769 / 536870912) 0 = round_lsb avr_platform (163845 / 268435456) 1"
    by (rule round_lsb_step [OF _ _ s1]) simp_all
  have s2: "flt avr_platform (dbl avr_platform ((163845 / 268435456) * 10)) = 819225 / 134217728"
    by code_simp
  have t2: "round_lsb avr_platform (163845 / 268435456) 1 = round_lsb avr_platform (819225 / 134217728) 2"
    by (rule round_lsb_step [OF _ _ s2]) simp_all
  have s3: "flt avr_platform (dbl avr_platform ((819225 / 134217728) * 10)) = 4096125 / 67108864"
    by code_simp
  have t3: "round_lsb avr_platform (819225 / 134217728) 2 = round_lsb avr_platform (4096125 / 67108864) 3"
    by (rule round_lsb_step [OF _ _ s3]) simp_all
  have s4: "flt avr_platform (dbl avr_platform ((4096125 / 67108864) * 10)) = 1280039 / 2097152"
    by code_simp
  have t4: "round_lsb avr_platform (4096125 / 67108864) 3 = round_lsb avr_platform (1280039 / 2097152) 4"
    by (rule round_lsb_step [OF _ _ s4]) simp_all
  have s5: "flt avr_platform (dbl avr_platform ((1280039 / 2097152) * 10)) = 6400195 / 1048576"
    by code_simp
  have t5: "round_lsb avr_platform (1280039 / 2097152) 4 = round_lsb avr_platform (6400195 / 1048576) 5"
    by (rule round_lsb_step [OF _ _ s5]) simp_all
  have h: "flt avr_platform (dbl avr_platform (flt avr_platform (if int_16bit avr_platform
        then real (unat (word_of_int \<lfloor>6400195 / 1048576 :: real\<rfloor> + 1 :: 16 word))
        else real (unat (word_of_int \<lfloor>6400195 / 1048576 :: real\<rfloor> :: 16 word)) + 1) /
      pow_10 avr_platform (unat (5 :: 16 word)))) = 9620727 / 137438953472"
    by code_simp
  have t: "round_lsb avr_platform (6400195 / 1048576) 5 = Some (9620727 / 137438953472)"
    by (rule round_lsb_exit [OF _ _ h]) simp_all
  show ?thesis unfolding s0 t1 t2 t3 t4 t5 t ..
qed

lemma run_avr_2A:
  "setCalibration_Def avr_platform K (binary32 0.1) (binary32 0.32) 32 (2) self w =
     Some (self\<lparr>ina219_currentLsb_mA := 9395241 / 134217728, ina219_calValue := 5851,
            ina219_powerLsb_mW := 2936013 / 2097152\<rparr>,
          wireWriteRegister self INA219_REG_CONFIG
            (INA219_CONFIG_BVOLTAGERANGE_32V K OR INA219_CONFIG_GAIN_8_320MV K OR
             INA219_CONFIG_BADCRES_12BIT K OR INA219_CONFIG_SADCRES_12BIT_1S_532US K OR
             INA219_CONFIG_MODE_SANDBVOLT_CONTINUOUS K)
            (wireWriteRegister self INA219_REG_CALIBRATION 5851 w))"
proof -
  have m: "flt avr_platform ((9620727 / 137438953472) * 1000) = 9395241 / 134217728"
    by code_simp
  have q: "(if flt avr_platform ((9620727 / 137438953472) * (binary32 0.1)) = 0 then conv_infinite avr_platform
      else float_to_u16 avr_platform (flt avr_platform (dbl avr_platform (dbl avr_platform 0.04096 / flt avr_platform ((9620727 / 137438953472) * (binary32 0.1)))))) = 5851"
    by code_simp
  have p: "flt avr_platform (flt avr_platform ((9620727 / 137438953472) * 20) * 1000) = 2936013 / 2097152"
    by code_simp
  have v: "binary32 0.32 = 5368709 / 16777216"
    by code_simp
  show ?thesis
    unfolding setCalibration_Def_run [OF loop_avr_2A] m q p v
    by simp
qed

lemma loop_avr_1A:
  "round_lsb avr_platform (flt avr_platform (1 / 32767)) 0 = Some (2748779 / 68719476736)"
proof -
  have s0: "flt avr_platform (1 / 32767) = 32769 / 1073741824"
    by code_simp
  have s1: "flt avr_platform (dbl avr_platform ((32769 / 1073741824) * 10)) = 163845 / 536870912"
    by code_simp
  have t1: "round_lsb avr_platform (32769 / 1073741824) 0 = round_lsb avr_platform (163845 / 536870912) 1"
    by (rule round_lsb_step [OF _ _ s1]) simp_all
  have s2: "flt avr_platform (dbl avr_platform ((163845 / 536870912) * 10)) = 819225 / 268435456"
    by code_simp
  have t2: "round_lsb avr_platform (163845 / 536870912) 1 = round_lsb avr_platform (819225 / 268435456) 2"
    by (rule round_lsb_step [OF _ _ s2]) simp_all
  have s3: "flt avr_platform (dbl avr_platform ((819225 / 268435456) * 10)) = 4096125 / 134217728"
    by code_simp
  have t3: "round_lsb avr_platform (819225 / 268435456) 2 = round_lsb avr_platform (4096125 / 134217728) 3"
    by (rule round_lsb_step [OF _ _ s3]) simp_all
  have s4: "flt avr_platform (dbl avr_platform ((4096125 / 134217728) * 10)) = 1280039 / 4194304"
    by code_simp
  have t4: "round_lsb avr_platform (4096125 / 134217728) 3 = round_lsb avr_platform (1280039 / 4194304) 4"
    by (rule round_lsb_step [OF _ _ s4]) simp_all
  have s5: "flt avr_platform (dbl avr_platform ((1280039 / 4194304) * 10)) = 6400195 / 2097152"
    by code_simp
  have t5: "round_lsb avr_platform (1280039 / 4194304) 4 = round_lsb avr_platform (6400195 / 2097152) 5"
    by (rule round_lsb_step [OF _ _ s5]) simp_all
  have h: "flt avr_platform (dbl avr_platform (flt avr_platform (if int_16bit avr_platform
        then real (unat (word_of_int \<lfloor>6400195 / 2097152 :: real\<rfloor> + 1 :: 16 word))
        else real (unat (word_of_int \<lfloor>6400195 / 2097152 :: real\<rfloor> :: 16 word)) + 1) /
      pow_10 avr_platform (unat (5 :: 16 word)))) = 2748779 / 68719476736"
    by code_simp
  have t: "round_lsb avr_platform (6400195 / 2097152) 5 = Some (2748779 / 68719476736)"
    by (rule round_lsb_exit [OF _ _ h]) simp_all
  show ?thesis unfolding s0 t1 t2 t3 t4 t5 t ..
qed

lemma run_avr_1A:
  "setCalibration_Def avr_platform K (binary32 0.1) (binary32 0.08) 16 (1) self w =
     Some (self\<lparr>ina219_currentLsb_mA := 5368709 / 134217728, ina219_calValue := 10240,
            ina219_powerLsb_mW := 3355443 / 4194304\<rparr>,
          wireWriteRegister self INA219_REG_CONFIG
            (INA219_CONFIG_BVOLTAGERANGE_16V K OR INA219_CONFIG_GAIN_2_80MV K OR
             INA219_CONFIG_BADCRES_12BIT K OR INA219_CONFIG_SADCRES_12BIT_1S_532US K OR
             INA219_CONFIG_MODE_SANDBVOLT_CONTINUOUS K)
            (wireWriteRegister self INA219_REG_CALIBRATION 10240 w))"
proof -
  have m: "flt avr_platform ((2748779 / 68719476736) * 1000) = 5368709 / 134217728"
    by code_simp
  have q: "(if flt avr_platform ((2748779 / 68719476736) * (binary32 0.1)) = 0 then conv_infinite avr_platform
      else float_to_u16 avr_platform (flt avr_platform (dbl avr_platform (dbl avr_platform 0.04096 / flt avr_platform ((2748779 / 68719476736) * (binary32 0.1)))))) = 10240"
    by code_simp
  have p: "flt avr_platform (flt avr_platform ((2748779 / 68719476736) * 20) * 1000) = 3355443 / 4194304"
    by code_simp
  have v: "binary32 0.08 = 5368709 / 67108864"
    by code_simp
  show ?thesis
    unfolding setCalibration_Def_run [OF loop_avr_1A] m q p v
    by simp
qed

lemma loop_avr_neg_20000:
  "round_lsb avr_platform (flt avr_platform (- 20000 / 32767)) 0 = Some (- 10240313 / 16777216)"
proof -
  have s0: "flt avr_platform (- 20000 / 32767) = - 10240313 / 16777216"
    by code_simp
  show ?thesis unfolding s0 by (rule round_lsb_nonpos) simp
qed

lemma run_avr_neg_20000:
  "setCalibration_Def avr_platform K (binary32 0.1) (binary32 0.32) 32 (- 20000) self w =
     Some (self\<lparr>ina219_currentLsb_mA := - 5000153 / 8192, ina219_calValue := 0,
            ina219_powerLsb_mW := - 6250191 / 512\<rparr>,
          wireWriteRegister self INA219_REG_CONFIG
            (INA219_CONFIG_BVOLTAGERANGE_32V K OR INA219_CONFIG_GAIN_8_320MV K OR
             INA219_CONFIG_BADCRES_12BIT K OR INA219_CONFIG_SADCRES_12BIT_1S_532US K OR
             INA219_CONFIG_MODE_SANDBVOLT_CONTINUOUS K)
            (wireWriteRegister self INA219_REG_CALIBRATION 0 w))"
proof -
  have m: "flt avr_platform ((- 10240313 / 16777216) * 1000) = - 5000153 / 8192"
    by code_simp
  have q: "(if flt avr_platform ((- 10240313 / 16777216) * (binary32 0.1)) = 0 then conv_infinite avr_platform
      else float_to_u16 avr_platform (flt avr_platform (dbl avr_platform (dbl avr_platform 0.04096 / flt avr_platform ((- 10240313 / 16777216) * (binary32 0.1)))))) = 0"
    by code_simp
  have p: "flt avr_platform (flt avr_platform ((- 10240313 / 16777216) * 20) * 1000) = - 6250191 / 512"
    by code_simp
  have v: "binary32 0.32 = 5368709 / 16777216"
    by code_simp
  show ?thesis
    unfolding setCalibration_Def_run [OF loop_avr_neg_20000] m q p v
    by simp
qed

lemma loop_avr_neg_5_1:
  "round_lsb avr_platform (flt avr_platform (binary32 (- 5.1) / 32767)) 0 = Some (- 10695801 / 68719476736)"
proof -
  have s0: "flt avr_platform (binary32 (- 5.1) / 32767) = - 10695801 / 68719476736"
    by code_simp
  show ?thesis unfolding s0 by (rule round_lsb_nonpos) simp
qed

lemma run_avr_neg_5_1:
  "setCalibration_Def avr_platform K (binary32 (- 0.011)) (binary32 0.32) 32 (binary32 (- 5.1)) self w =
     Some (self\<lparr>ina219_currentLsb_mA := - 5222559 / 33554432, ina219_calValue := 23924,
            ina219_powerLsb_mW := - 13056397 / 4194304\<rparr>,
          wireWriteRegister self INA219_REG_CONFIG
            (INA219_CONFIG_BVOLTAGERANGE_32V K OR INA219_CONFIG_GAIN_8_320MV K OR
             INA219_CONFIG_BADCRES_12BIT K OR INA219_CONFIG_SADCRES_12BIT_1S_532US K OR
             INA219_CONFIG_MODE_SANDBVOLT_CONTINUOUS K)
            (wireWriteRegister self INA219_REG_CALIBRATION 23924 w))"
proof -
  have m: "flt avr_platform ((- 10695801 / 68719476736) * 1000) = - 5222559 / 33554432"
    by code_simp
  have q: "(if flt avr_platform ((- 10695801 / 68719476736) * (binary32 (- 0.011))) = 0 then conv_infinite avr_platform
      else float_to_u16 avr_platform (flt avr_platform (dbl avr_platform (dbl avr_platform 0.04096 / flt avr_platform ((- 10695801 / 68719476736) * (binary32 (- 0.011))))))) = 23924"
    by code_simp
  have p: "flt avr_platform (flt avr_platform ((- 10695801 / 68719476736) * 20) * 1000) = - 13056397 / 4194304"
    by code_simp
  have v: "binary32 0.32 = 5368709 / 16777216"
    by code_simp
  show ?thesis
    unfolding setCalibration_Def_run [OF loop_avr_neg_5_1] m q p v
    by simp
qed

lemma loop_avr_16A:
  "round_lsb avr_platform (flt avr_platform (16 / 32767)) 0 = Some (8589935 / 17179869184)"
proof -
  have s0: "flt avr_platform (16 / 32767) = 32769 / 67108864"
    by code_simp
  have s1: "flt avr_platform (dbl avr_platform ((32769 / 67108864) * 10)) = 163845 / 33554432"
    by code_simp
  have t1: "round_lsb avr_platform (32769 / 67108864) 0 = round_lsb avr_platform (163845 / 33554432) 1"
    by (rule round_lsb_step [OF _ _ s1]) simp_all
  have s2: "flt avr_platform (dbl avr_platform ((163845 / 33554432) * 10)) = 819225 / 16777216"
    by code_simp
  have t2: "round_lsb avr_platform (163845 / 33554432) 1 = round_lsb avr_platform (819225 / 16777216) 2"
    by (rule round_lsb_step [OF _ _ s2]) simp_all
  have s3: "flt avr_platform (dbl avr_platform ((819225 / 16777216) * 10)) = 4096125 / 8388608"
    by code_simp
  have t3: "round_lsb avr_platform (819225 / 16777216) 2 = round_lsb avr_platform (4096125 / 8388608) 3"
    by (rule round_lsb_step [OF _ _ s3]) simp_all
  have s4: "flt avr_platform (dbl avr_platform ((4096125 / 8388608) * 10)) = 1280039 / 262144"
    by code_simp
  have t4: "round_lsb avr_platform (4096125 / 8388608) 3 = round_lsb avr_platform (1280039 / 262144) 4"
    by (rule round_lsb_step [OF _ _ s4]) simp_all
  have h: "flt avr_platform (dbl avr_platform (flt avr_platform (if int_16bit avr_platform
        then real (unat (word_of_int \<lfloor>1280039 / 262144 :: real\<rfloor> + 1 :: 16 word))
        else real (unat (word_of_int \<lfloor>1280039 / 262144 :: real\<rfloor> :: 16 word)) + 1) /
      pow_10 avr_platform (unat (4 :: 16 word)))) = 8589935 / 17179869184"
    by code_simp
  have t: "round_lsb avr_platform (1280039 / 262144) 4 = Some (8589935 / 17179869184)"
    by (rule round_lsb_exit [OF _ _ h]) simp_all
  show ?thesis unfolding s0 t1 t2 t3 t4 t ..
qed

lemma run_avr_16A:
  "setCalibration_Def avr_platform K (binary32 0.01) (binary32 0.32) 32 (16) self w =
     Some (self\<lparr>ina219_currentLsb_mA := 1 / 2, ina219_calValue := 8191,
            ina219_powerLsb_mW := 10485761 / 1048576\<rparr>,
          wireWriteRegister self INA219_REG_CONFIG
            (INA219_CONFIG_BVOLTAGERANGE_32V K OR INA219_CONFIG_GAIN_8_320MV K OR
             INA219_CONFIG_BADCRES_12BIT K OR INA219_CONFIG_SADCRES_12BIT_1S_532US K OR
             INA219_CONFIG_MODE_SANDBVOLT_CONTINUOUS K)
            (wireWriteRegister self INA219_REG_CALIBRATION 8191 w))"
proof -
  have m: "flt avr_platform ((8589935 / 17179869184) * 1000) = 1 / 2"
    by code_simp
  have q: "(if flt avr_platform ((8589935 / 17179869184) * (binary32 0.01)) = 0 then conv_infinite avr_platform
      else float_to_u16 avr_platform (flt avr_platform (dbl avr_platform (dbl avr_platform 0.04096 / flt avr_platform ((8589935 / 17179869184) * (binary32 0.01)))))) = 8191"
    by code_simp
  have p: "flt avr_platform (flt avr_platform ((8589935 / 17179869184) * 20) * 1000) = 10485761 / 1048576"
    by code_simp
  have v: "binary32 0.32 = 5368709 / 16777216"
    by code_simp
  show ?thesis
    unfolding setCalibration_Def_run [OF loop_avr_16A] m q p v
    by simp
qed

lemma loop_avr_3_2767:
  "round_lsb avr_platform (flt avr_platform (binary32 3.2767 / 32767)) 0 = Some (13743895 / 137438953472)"
proof -
  have s0: "flt avr_platform (binary32 3.2767 / 32767) = 13743895 / 137438953472"
    by code_simp
  have s1: "flt avr_platform (dbl avr_platform ((13743895 / 137438953472) * 10)) = 4294967 / 4294967296"
    by code_simp
  have t1: "round_lsb avr_platform (13743895 / 137438953472) 0 = round_lsb avr_platform (4294967 / 4294967296) 1"
    by (rule round_lsb_step [OF _ _ s1]) simp_all
  have s2: "flt avr_platform (dbl avr_platform ((4294967 / 4294967296) * 10)) = 5368709 / 536870912"
    by code_simp
  have t2: "round_lsb avr_platform (4294967 / 4294967296) 1 = round_lsb avr_platform (5368709 / 536870912) 2"
    by (rule round_lsb_step [OF _ _ s2]) simp_all
  have s3: "flt avr_platform (dbl avr_platform ((5368709 / 536870912) * 10)) = 3355443 / 33554432"
    by code_simp
  have t3: "round_lsb avr_platform (5368709 / 536870912) 2 = round_lsb avr_platform (3355443 / 33554432) 3"
    by (rule round_lsb_step [OF _ _ s3]) simp_all
  have s4: "flt avr_platform (dbl avr_platform ((3355443 / 33554432) * 10)) = 16777215 / 16777216"
    by code_simp
  have t4: "round_lsb avr_platform (3355443 / 33554432) 3 = round_lsb avr_platform (16777215 / 16777216) 4"
    by (rule round_lsb_step [OF _ _ s4]) simp_all
  have s5: "flt avr_platform (dbl avr_platform ((16777215 / 16777216) * 10)) = 10485759 / 1048576"
    by code_simp
  have t5: "round_lsb avr_platform (16777215 / 16777216) 4 = round_lsb avr_platform (10485759 / 1048576) 5"
    by (rule round_lsb_step [OF _ _ s5]) simp_all
  have h: "flt avr_platform (dbl avr_platform (flt avr_platform (if int_16bit avr_platform
        then real (unat (word_of_int \<lfloor>10485759 / 1048576 :: real\<rfloor> + 1 :: 16 word))
        else real (unat (word_of_int \<lfloor>10485759 / 1048576 :: real\<rfloor> :: 16 word)) + 1) /
      pow_10 avr_platform (unat (5 :: 16 word)))) = 13743895 / 137438953472"
    by code_simp
  have t: "round_lsb avr_platform (10485759 / 1048576) 5 = Some (13743895 / 137438953472)"
    by (rule round_lsb_exit [OF _ _ h]) simp_all
  show ?thesis unfolding s0 t1 t2 t3 t4 t5 t ..
qed

lemma run_avr_3_2767:
  "setCalibration_Def avr_platform K (binary32 0.1) (binary32 0.32) 32 (binary32 3.2767) self w =
     Some (self\<lparr>ina219_currentLsb_mA := 3355443 / 33554432, ina219_calValue := 4096,
            ina219_powerLsb_mW := 16777215 / 8388608\<rparr>,
          wireWriteRegister self INA219_REG_CONFIG
            (INA219_CONFIG_BVOLTAGERANGE_32V K OR INA219_CONFIG_GAIN_8_320MV K OR
             INA219_CONFIG_BADCRES_12BIT K OR INA219_CONFIG_SADCRES_12BIT_1S_532US K OR
             INA219_CONFIG_MODE_SANDBVOLT_CONTINUOUS K)
            (wireWriteRegister self INA219_REG_CALIBRATION 4096 w))"
proof -
  have m: "flt avr_platform ((13743895 / 137438953472) * 1000) = 3355443 / 33554432"
    by code_simp
  have q: "(if flt avr_platform ((13743895 / 137438953472) * (binary32 0.1)) = 0 then conv_infinite avr_platform
      else float_to_u16 avr_platform (flt avr_platform (dbl avr_platform (dbl avr_platform 0.04096 / flt avr_platform ((13743895 / 137438953472) * (binary32 0.1)))))) = 4096"
    by code_simp
  have p: "flt avr_platform (flt avr_platform ((13743895 / 137438953472) * 20) * 1000) = 16777215 / 8388608"
    by code_simp
  have v: "binary32 0.32 = 5368709 / 16777216"
    by code_simp
  show ?thesis
    unfolding setCalibration_Def_run [OF loop_avr_3_2767] m q p v
    by simp
qed

text \<open>
  C7. A run of \<open>setCalibration_Def\<close> that returns has written to CONFIG the bus range,
  the gain macro of the specification's gain index for \<open>v_shunt_max\<close> (index 1 up to
  0.04 V, 2 up to 0.08 V, 4 up to 0.16 V, else 8, a tie going to the smaller range) and
  the three fixed fields, as its last bus operation. The run returns on every target
  whose arithmetic lets the loop progress, whenever \<open>i_max_expected / 32767\<close> is in the
  range of \<open>uint16_t\<close>, whatever the calibration quotient is. The index is that of the
  smallest of the four ranges that covers \<open>v_shunt_max\<close>, and it does not decrease when
  \<open>v_shunt_max\<close> grows.
\<close>

theorem setCalibration_Def_gain_selection:
  "(setCalibration_Def P K r_shunt v_shunt_max v_bus_max i_max_expected self w = Some (self', w')
      \<longrightarrow>
      dev_regs w' (ina219_i2caddr self) INA219_REG_CONFIG =
        (if v_bus_max > 16 then INA219_CONFIG_BVOLTAGERANGE_32V K
         else INA219_CONFIG_BVOLTAGERANGE_16V K) OR
        gain_macro_of_index K (spec_gain_index v_shunt_max) OR
        INA219_CONFIG_BADCRES_12BIT K OR
        INA219_CONFIG_SADCRES_12BIT_1S_532US K OR
        INA219_CONFIG_MODE_SANDBVOLT_CONTINUOUS K \<and>
      wire_log w' = wire_log w @
        write_ops (ina219_i2caddr self) INA219_REG_CALIBRATION (ina219_calValue self') @
        write_ops (ina219_i2caddr self) INA219_REG_CONFIG
          (dev_regs w' (ina219_i2caddr self) INA219_REG_CONFIG)) \<and>
   (loop_progress P \<and> flt P (i_max_expected / 32767) < 65536 \<longrightarrow>
      (\<exists>s v. setCalibration_Def P K r_shunt v_shunt_max v_bus_max i_max_expected self w =
         Some (s, v))) \<and>
   (v_shunt_max \<le> 0.32 \<longrightarrow> v_shunt_max \<le> 0.04 * real (spec_gain_index v_shunt_max)) \<and>
   (\<forall>g \<in> {1, 2, 4, 8}. v_shunt_max \<le> 0.04 * real g \<longrightarrow> spec_gain_index v_shunt_max \<le> g) \<and>
   (\<forall>v. v_shunt_max \<le> v \<longrightarrow> spec_gain_index v_shunt_max \<le> spec_gain_index v)"
proof -
  have 1: "dev_regs w' (ina219_i2caddr self) INA219_REG_CONFIG =
        (if v_bus_max > 16 then INA219_CONFIG_BVOLTAGERANGE_32V K
         else INA219_CONFIG_BVOLTAGERANGE_16V K) OR
        gain_macro_of_index K (spec_gain_index v_shunt_max) OR
        INA219_CONFIG_BADCRES_12BIT K OR
        INA219_CONFIG_SADCRES_12BIT_1S_532US K OR
        INA219_CONFIG_MODE_SANDBVOLT_CONTINUOUS K \<and>
      wire_log w' = wire_log w @
        write_ops (ina219_i2caddr self) INA219_REG_CALIBRATION (ina219_calValue self') @
        write_ops (ina219_i2caddr self) INA219_REG_CONFIG
          (dev_regs w' (ina219_i2caddr self) INA219_REG_CONFIG)"
    if r: "setCalibration_Def P K r_shunt v_shunt_max v_bus_max i_max_expected self w =
      Some (self', w')"
  proof -
    from r obtain c where c: "round_lsb P (flt P (i_max_expected / 32767)) 0 = Some c"
      by (rule setCalibration_Def_Some)
    from r have s: "self' = fst (the (setCalibration_Def P K r_shunt v_shunt_max v_bus_max
        i_max_expected self w))"
      and w: "w' = snd (the (setCalibration_Def P K r_shunt v_shunt_max v_bus_max
        i_max_expected self w))"
      by simp_all
    show ?thesis
      unfolding s w setCalibration_Def_run [OF c] option.sel fst_conv snd_conv
        two_writes_config two_writes_log gain_chain_eq
      by simp
  qed
  have 2: "\<exists>s v. setCalibration_Def P K r_shunt v_shunt_max v_bus_max i_max_expected self w =
         Some (s, v)"
    if "loop_progress P" and "flt P (i_max_expected / 32767) < 65536"
  proof -
    from round_lsb_returns [OF that(1) refl that(2)]
    obtain c where c: "round_lsb P (flt P (i_max_expected / 32767)) 0 = Some c" by blast
    show ?thesis unfolding setCalibration_Def_run [OF c] by blast
  qed
  have 3: "v_shunt_max \<le> 0.32 \<longrightarrow> v_shunt_max \<le> 0.04 * real (spec_gain_index v_shunt_max)"
    by (simp add: spec_gain_index_def)
  have 4: "\<forall>g \<in> {1, 2, 4, 8}. v_shunt_max \<le> 0.04 * real g \<longrightarrow> spec_gain_index v_shunt_max \<le> g"
    by (simp add: spec_gain_index_def)
  have 5: "\<forall>v. v_shunt_max \<le> v \<longrightarrow> spec_gain_index v_shunt_max \<le> spec_gain_index v"
    by (simp add: spec_gain_index_def)
  from 1 2 3 4 5 show ?thesis by blast
qed

theorem setCalibration_Def_gain_selection_witness:
  "loop_progress avr_platform \<and>
   flt avr_platform (binary32 0.1 / 32767) < 65536 \<and>
   (\<exists>s v. setCalibration_Def avr_platform example_macros (binary32 0.1) (binary32 0.04) 16
      (binary32 0.1) handle0 wire0 = Some (s, v)) \<and>
   setCalibration_Def avr_platform example_macros (binary32 0.1) (binary32 0.08) 16 1
     handle0 wire0 =
     Some (handle0\<lparr>ina219_currentLsb_mA := 5368709 / 134217728, ina219_calValue := 10240,
            ina219_powerLsb_mW := 3355443 / 4194304\<rparr>,
          wireWriteRegister handle0 INA219_REG_CONFIG 0x0C1F
            (wireWriteRegister handle0 INA219_REG_CALIBRATION 10240 wire0)) \<and>
   dev_regs (wireWriteRegister handle0 INA219_REG_CONFIG 0x0C1F
            (wireWriteRegister handle0 INA219_REG_CALIBRATION 10240 wire0))
     (ina219_i2caddr handle0) INA219_REG_CONFIG = 0x0C1F \<and>
   spec_gain_index (binary32 0.08) = 2 \<and>
   gain_macro_of_index example_macros (spec_gain_index (binary32 0.08)) = 0x0800"
proof -
  have b: "flt avr_platform (binary32 0.1 / 32767) < 65536"
    by code_simp
  have v: "binary32 0.08 = 5368709 / 67108864"
    by code_simp
  have r: "setCalibration_Def avr_platform example_macros (binary32 0.1) (binary32 0.08) 16 1
     handle0 wire0 =
     Some (handle0\<lparr>ina219_currentLsb_mA := 5368709 / 134217728, ina219_calValue := 10240,
            ina219_powerLsb_mW := 3355443 / 4194304\<rparr>,
          wireWriteRegister handle0 INA219_REG_CONFIG 0x0C1F
            (wireWriteRegister handle0 INA219_REG_CALIBRATION 10240 wire0))"
    unfolding run_avr_1A by (simp add: example_macros_def)
  have g: "spec_gain_index (binary32 0.08) = 2"
    unfolding v by (simp add: spec_gain_index_def)
  have m: "gain_macro_of_index example_macros 2 = 0x0800"
    by (simp add: gain_macro_of_index_def example_macros_def)
  from setCalibration_Def_gain_selection [where P = avr_platform and K = example_macros
      and r_shunt = "binary32 0.1" and v_shunt_max = "binary32 0.04" and v_bus_max = 16
      and i_max_expected = "binary32 0.1" and self = handle0 and w = wire0]
    loop_progress_avr b
  have 1: "\<exists>s v. setCalibration_Def avr_platform example_macros (binary32 0.1) (binary32 0.04) 16
      (binary32 0.1) handle0 wire0 = Some (s, v)"
    by blast
  from setCalibration_Def_gain_selection [where P = avr_platform and K = example_macros
      and r_shunt = "binary32 0.1" and v_shunt_max = "binary32 0.08" and v_bus_max = 16
      and i_max_expected = 1 and self = handle0 and w = wire0, THEN conjunct1, rule_format, OF r]
  have 2: "dev_regs (wireWriteRegister handle0 INA219_REG_CONFIG 0x0C1F
            (wireWriteRegister handle0 INA219_REG_CALIBRATION 10240 wire0))
     (ina219_i2caddr handle0) INA219_REG_CONFIG = 0x0C1F"
    unfolding g m by (simp add: example_macros_def)
  from loop_progress_avr b 1 r 2 g m show ?thesis by simp
qed

text \<open>
  C1. With \<open>i_max_expected \<le> 0\<close>, on a target whose rounding keeps a number that is not
  positive from becoming positive, the rounding loop is not entered and leaves
  \<open>current_lsb\<close> at the rounded \<open>i_max_expected / 32767\<close>, and no configuration error is
  raised: the routine returns, having cached the current LSB \<open>current_lsb * 1000\<close> and
  the power LSB \<open>current_lsb * 20 * 1000\<close>, each product rounded to \<open>float\<close>, and the
  value the conversion of the rounded quotient \<open>0.04096 / (current_lsb * r_shunt)\<close> to
  \<open>uint16_t\<close> leaves, and having written that value to CALIBRATION and then CONFIG.
\<close>

theorem setCalibration_Def_nonpositive_current:
  assumes "i_max_expected \<le> 0" and "rounds_nonpositive P"
    and "current_lsb = flt P (i_max_expected / 32767)"
    and "cal = (if flt P (current_lsb * r_shunt) = 0 then conv_infinite P
                else float_to_u16 P
                       (flt P (dbl P (dbl P 0.04096 / flt P (current_lsb * r_shunt)))))"
  shows "round_lsb P current_lsb 0 = Some current_lsb \<and>
    (\<exists>w'. setCalibration_Def P K r_shunt v_shunt_max v_bus_max i_max_expected self w =
        Some (self\<lparr>ina219_currentLsb_mA := flt P (current_lsb * 1000),
                ina219_calValue := cal,
                ina219_powerLsb_mW := flt P (flt P (current_lsb * 20) * 1000)\<rparr>, w') \<and>
        dev_regs w' (ina219_i2caddr self) INA219_REG_CALIBRATION = cal \<and>
        wire_log w' = wire_log w @
          write_ops (ina219_i2caddr self) INA219_REG_CALIBRATION cal @
          write_ops (ina219_i2caddr self) INA219_REG_CONFIG
            (dev_regs w' (ina219_i2caddr self) INA219_REG_CONFIG))"
proof -
  from assms(1) have "i_max_expected / 32767 \<le> 0" by simp
  with assms(2,3) have np: "current_lsb \<le> 0" by (simp add: rounds_nonpositive_def)
  then have r: "round_lsb P current_lsb 0 = Some current_lsb" by (rule round_lsb_nonpos)
  then have r': "round_lsb P (flt P (i_max_expected / 32767)) 0 = Some current_lsb"
    unfolding assms(3) .
  have "\<exists>w'. setCalibration_Def P K r_shunt v_shunt_max v_bus_max i_max_expected self w =
        Some (self\<lparr>ina219_currentLsb_mA := flt P (current_lsb * 1000),
                ina219_calValue := cal,
                ina219_powerLsb_mW := flt P (flt P (current_lsb * 20) * 1000)\<rparr>, w') \<and>
        dev_regs w' (ina219_i2caddr self) INA219_REG_CALIBRATION = cal \<and>
        wire_log w' = wire_log w @
          write_ops (ina219_i2caddr self) INA219_REG_CALIBRATION cal @
          write_ops (ina219_i2caddr self) INA219_REG_CONFIG
            (dev_regs w' (ina219_i2caddr self) INA219_REG_CONFIG)"
    unfolding setCalibration_Def_run [OF r'] assms(4) [symmetric]
    by (rule exI, intro conjI, rule refl, rule two_writes_cal, rule two_writes_log_config)
  with r show ?thesis by blast
qed

theorem setCalibration_Def_nonpositive_current_witness:
  "(- 20000 :: real) \<le> 0 \<and> rounds_nonpositive avr_platform \<and>
   round_lsb avr_platform (- 10240313 / 16777216) 0 = Some (- 10240313 / 16777216) \<and>
   (\<exists>w'. setCalibration_Def avr_platform example_macros (binary32 0.1) (binary32 0.32) 32
        (- 20000) handle0 wire0 =
      Some (handle0\<lparr>ina219_currentLsb_mA := - 5000153 / 8192, ina219_calValue := 0,
              ina219_powerLsb_mW := - 6250191 / 512\<rparr>, w') \<and>
      dev_regs w' 0x40 INA219_REG_CALIBRATION = 0)"
proof -
  have i: "(- 20000 :: real) \<le> 0" by simp
  have c: "- 10240313 / 16777216 = flt avr_platform (- 20000 / 32767)"
    by code_simp
  have q: "0 = (if flt avr_platform ((- 10240313 / 16777216) * binary32 0.1) = 0
      then conv_infinite avr_platform
      else float_to_u16 avr_platform (flt avr_platform (dbl avr_platform
        (dbl avr_platform 0.04096 /
         flt avr_platform ((- 10240313 / 16777216) * binary32 0.1)))))"
    by code_simp
  have m: "flt avr_platform ((- 10240313 / 16777216) * 1000) = - 5000153 / 8192"
    by code_simp
  have p: "flt avr_platform (flt avr_platform ((- 10240313 / 16777216) * 20) * 1000) =
      - 6250191 / 512"
    by code_simp
  have a: "ina219_i2caddr handle0 = 0x40" by (simp add: handle0_def Adafruit_INA219_def)
  from setCalibration_Def_nonpositive_current [OF i rounds_nonpositive_avr c q,
      of example_macros "binary32 0.32" 32 handle0 wire0]
  have "round_lsb avr_platform (- 10240313 / 16777216) 0 = Some (- 10240313 / 16777216) \<and>
   (\<exists>w'. setCalibration_Def avr_platform example_macros (binary32 0.1) (binary32 0.32) 32
        (- 20000) handle0 wire0 =
      Some (handle0\<lparr>ina219_currentLsb_mA := - 5000153 / 8192, ina219_calValue := 0,
              ina219_powerLsb_mW := - 6250191 / 512\<rparr>, w') \<and>
      dev_regs w' 0x40 INA219_REG_CALIBRATION = 0)"
    unfolding m p a by blast
  with i rounds_nonpositive_avr show ?thesis by blast
qed

text \<open>
  On the AVR target a call with \<open>i_max_expected = -20000\<close> returns with a negative
  current LSB and the calibration value 0 written; a call with \<open>r_shunt = -0.011\<close> and
  \<open>i_max_expected = -5.1\<close> returns with the calibration value 23924 written.
\<close>

theorem setCalibration_Def_nonpositive_no_error:
  "setCalibration_Def avr_platform example_macros (binary32 0.1) (binary32 0.32) 32
     (- 20000) handle0 wire0 =
     Some (handle0\<lparr>ina219_currentLsb_mA := - 5000153 / 8192, ina219_calValue := 0,
            ina219_powerLsb_mW := - 6250191 / 512\<rparr>,
          wireWriteRegister handle0 INA219_REG_CONFIG 0x3C1F
            (wireWriteRegister handle0 INA219_REG_CALIBRATION 0 wire0)) \<and>
   setCalibration_Def avr_platform example_macros (binary32 (- 0.011)) (binary32 0.32) 32
     (binary32 (- 5.1)) handle0 wire0 =
     Some (handle0\<lparr>ina219_currentLsb_mA := - 5222559 / 33554432, ina219_calValue := 23924,
            ina219_powerLsb_mW := - 13056397 / 4194304\<rparr>,
          wireWriteRegister handle0 INA219_REG_CONFIG 0x3C1F
            (wireWriteRegister handle0 INA219_REG_CALIBRATION 23924 wire0)) \<and>
   wire_log (wireWriteRegister handle0 INA219_REG_CONFIG 0x3C1F
            (wireWriteRegister handle0 INA219_REG_CALIBRATION 23924 wire0)) =
     [Transmission 0x40 [INA219_REG_CALIBRATION, 0x5D, 0x74],
      Transmission 0x40 [INA219_REG_CONFIG, 0x3C, 0x1F]]"
proof -
  have l: "wire_log (wireWriteRegister handle0 INA219_REG_CONFIG 0x3C1F
            (wireWriteRegister handle0 INA219_REG_CALIBRATION 23924 wire0)) =
     [Transmission 0x40 [INA219_REG_CALIBRATION, 0x5D, 0x74],
      Transmission 0x40 [INA219_REG_CONFIG, 0x3C, 0x1F]]"
    by (simp add: wireWriteRegister_eq write_ops_def handle0_def Adafruit_INA219_def wire0_def)
  show ?thesis
    unfolding run_avr_neg_20000 run_avr_neg_5_1 l by (simp add: example_macros_def)
qed

text \<open>
  C2. With \<open>r_shunt = 0.1\<close>, \<open>v_shunt_max = 0.32\<close>, \<open>v_bus_max = 32\<close> and
  \<open>i_max_expected = 2\<close> the routine rounds 2 / 32767 = 0.000061... up to 0.00007: it
  caches the current LSB 0.07 mA, the power LSB 1.4 mW and the calibration value 5851,
  and writes 5851 to CALIBRATION. Without rounding the two scale factors are these
  numbers; on the AVR target, called with the \<open>float\<close> values of 0.1 and 0.32, they are
  the binary32 numbers next to them, and the calibration value is 5851 again.
\<close>

lemma loop_exact_2A: "round_lsb exact_platform (flt exact_platform (2 / 32767)) 0 = Some (7 / 100000)"
  by (simp add: exact_platform_simps round_lsb_small round_lsb_hit)

lemma run_exact_2A:
  "setCalibration_Def exact_platform K 0.1 0.32 32 2 self w =
     Some (self\<lparr>ina219_currentLsb_mA := 0.07, ina219_calValue := 5851,
            ina219_powerLsb_mW := 1.4\<rparr>,
          wireWriteRegister self INA219_REG_CONFIG
            (INA219_CONFIG_BVOLTAGERANGE_32V K OR INA219_CONFIG_GAIN_8_320MV K OR
             INA219_CONFIG_BADCRES_12BIT K OR INA219_CONFIG_SADCRES_12BIT_1S_532US K OR
             INA219_CONFIG_MODE_SANDBVOLT_CONTINUOUS K)
            (wireWriteRegister self INA219_REG_CALIBRATION 5851 w))"
  unfolding setCalibration_Def_run [OF loop_exact_2A]
  by (simp add: exact_platform_simps float_to_u16_nonneg)

theorem setCalibration_Def_2A_operating_point:
  "setCalibration_Def exact_platform K 0.1 0.32 32 2 self w =
     Some (self\<lparr>ina219_currentLsb_mA := 0.07, ina219_calValue := 5851,
            ina219_powerLsb_mW := 1.4\<rparr>,
          wireWriteRegister self INA219_REG_CONFIG
            (INA219_CONFIG_BVOLTAGERANGE_32V K OR INA219_CONFIG_GAIN_8_320MV K OR
             INA219_CONFIG_BADCRES_12BIT K OR INA219_CONFIG_SADCRES_12BIT_1S_532US K OR
             INA219_CONFIG_MODE_SANDBVOLT_CONTINUOUS K)
            (wireWriteRegister self INA219_REG_CALIBRATION 5851 w)) \<and>
   setCalibration_Def avr_platform K (binary32 0.1) (binary32 0.32) 32 2 self w =
     Some (self\<lparr>ina219_currentLsb_mA := 9395241 / 134217728, ina219_calValue := 5851,
            ina219_powerLsb_mW := 2936013 / 2097152\<rparr>,
          wireWriteRegister self INA219_REG_CONFIG
            (INA219_CONFIG_BVOLTAGERANGE_32V K OR INA219_CONFIG_GAIN_8_320MV K OR
             INA219_CONFIG_BADCRES_12BIT K OR INA219_CONFIG_SADCRES_12BIT_1S_532US K OR
             INA219_CONFIG_MODE_SANDBVOLT_CONTINUOUS K)
            (wireWriteRegister self INA219_REG_CALIBRATION 5851 w)) \<and>
   \<bar>9395241 / 134217728 - 0.07 :: real\<bar> < 1 / 10 ^ 9 \<and>
   \<bar>2936013 / 2097152 - 1.4 :: real\<bar> < 1 / 10 ^ 7 \<and>
   dev_regs (wireWriteRegister self INA219_REG_CONFIG
            (INA219_CONFIG_BVOLTAGERANGE_32V K OR INA219_CONFIG_GAIN_8_320MV K OR
             INA219_CONFIG_BADCRES_12BIT K OR INA219_CONFIG_SADCRES_12BIT_1S_532US K OR
             INA219_CONFIG_MODE_SANDBVOLT_CONTINUOUS K)
            (wireWriteRegister self INA219_REG_CALIBRATION 5851 w))
     (ina219_i2caddr self) INA219_REG_CALIBRATION = 5851"
  unfolding run_exact_2A run_avr_2A two_writes_cal by simp

text \<open>
  The run does not give the operating point of the 32V/2A preset (4096 and 0.1 mA),
  neither without rounding nor on the AVR target.
\<close>

theorem setCalibration_Def_2A_differs_from_preset:
  "setCalibration_Def exact_platform example_macros 0.1 0.32 32 2 handle0 wire0 \<noteq> None \<and>
   ina219_calValue (fst (the (setCalibration_Def exact_platform example_macros 0.1 0.32 32 2
     handle0 wire0))) = 5851 \<and>
   ina219_calValue (fst (the (setCalibration_Def exact_platform example_macros 0.1 0.32 32 2
     handle0 wire0))) \<noteq> 4096 \<and>
   ina219_currentLsb_mA (fst (the (setCalibration_Def exact_platform example_macros 0.1 0.32 32 2
     handle0 wire0))) = 0.07 \<and>
   0.02 < \<bar>ina219_currentLsb_mA (fst (the (setCalibration_Def exact_platform example_macros
     0.1 0.32 32 2 handle0 wire0))) - 0.1\<bar> \<and>
   setCalibration_Def avr_platform example_macros (binary32 0.1) (binary32 0.32) 32 2
     handle0 wire0 \<noteq> None \<and>
   ina219_calValue (fst (the (setCalibration_Def avr_platform example_macros (binary32 0.1)
     (binary32 0.32) 32 2 handle0 wire0))) = 5851 \<and>
   ina219_calValue (fst (the (setCalibration_Def avr_platform example_macros (binary32 0.1)
     (binary32 0.32) 32 2 handle0 wire0))) \<noteq> 4096 \<and>
   0.02 < \<bar>ina219_currentLsb_mA (fst (the (setCalibration_Def avr_platform example_macros
     (binary32 0.1) (binary32 0.32) 32 2 handle0 wire0))) - 0.1\<bar>"
  unfolding run_exact_2A run_avr_2A by simp

section \<open>Sampling-mode toggles\<close>

lemma rmw_outside:
  fixes v f m :: "16 word"
  assumes "f AND NOT m = 0"
  shows "((v AND NOT m) OR f) AND NOT m = v AND NOT m"
proof -
  have "((v AND NOT m) OR f) AND NOT m = (v AND NOT m) OR (f AND NOT m)"
    by (simp add: bit.conj_disj_distrib2 and.assoc)
  with assms show ?thesis by simp
qed

lemma rmw_other:
  fixes v f m m' :: "16 word"
  assumes "f AND NOT m = 0" and "m AND m' = 0"
  shows "((v AND NOT m) OR f) AND m' = v AND m'"
proof (rule bit_word_eqI)
  fix n assume "n < LENGTH(16)"
  from assms(1) have "\<not> bit (f AND NOT m) n" by simp
  with \<open>n < LENGTH(16)\<close> have f: "bit f n \<Longrightarrow> bit m n"
    by (simp add: bit_simps)
  from assms(2) have "\<not> bit (m AND m') n" by simp
  then have m: "bit m n \<Longrightarrow> \<not> bit m' n"
    by (simp add: bit_simps)
  from f m \<open>n < LENGTH(16)\<close>
  show "bit (((v AND NOT m) OR f) AND m') n = bit (v AND m') n"
    by (auto simp: bit_simps)
qed

lemma toggle_regs:
  "dev_regs (setAmpInstant K self w) (ina219_i2caddr self) INA219_REG_CONFIG =
     (dev_regs w (ina219_i2caddr self) INA219_REG_CONFIG AND
      NOT (INA219_CONFIG_SADCRES_MASK K)) OR INA219_CONFIG_SADCRES_12BIT_1S_532US K"
  "dev_regs (setAmpAverage K self w) (ina219_i2caddr self) INA219_REG_CONFIG =
     (dev_regs w (ina219_i2caddr self) INA219_REG_CONFIG AND
      NOT (INA219_CONFIG_SADCRES_MASK K)) OR INA219_CONFIG_SADCRES_12BIT_128S_69MS K"
  "dev_regs (setVoltInstant K self w) (ina219_i2caddr self) INA219_REG_CONFIG =
     (dev_regs w (ina219_i2caddr self) INA219_REG_CONFIG AND
      NOT (INA219_CONFIG_BADCRES_MASK K)) OR INA219_CONFIG_BADCRES_12BIT K"
  "dev_regs (setVoltAverage K self w) (ina219_i2caddr self) INA219_REG_CONFIG =
     (dev_regs w (ina219_i2caddr self) INA219_REG_CONFIG AND
      NOT (INA219_CONFIG_BADCRES_MASK K)) OR INA219_CONFIG_BADCRES_12BIT_128S_69MS K"
  by (simp_all add: setAmpInstant_def setAmpAverage_def setVoltInstant_def setVoltAverage_def
      wireReadRegister_eq wireWriteRegister_eq delay_def Let_def)

text \<open>
  C8. Provided the header's field values lie within their masks and the two masks share
  no bit: for every CONFIG value on the device, \<open>setAmpInstant\<close> and \<open>setAmpAverage\<close>
  leave every bit outside the shunt-ADC mask as it was, the bus-ADC bits among them, and
  \<open>setVoltInstant\<close> and \<open>setVoltAverage\<close> leave every bit outside the bus-ADC mask as it
  was, the shunt-ADC bits among them.
\<close>

theorem sampling_toggles_isolated:
  assumes "INA219_CONFIG_SADCRES_12BIT_1S_532US K AND NOT (INA219_CONFIG_SADCRES_MASK K) = 0"
    and "INA219_CONFIG_SADCRES_12BIT_128S_69MS K AND NOT (INA219_CONFIG_SADCRES_MASK K) = 0"
    and "INA219_CONFIG_BADCRES_12BIT K AND NOT (INA219_CONFIG_BADCRES_MASK K) = 0"
    and "INA219_CONFIG_BADCRES_12BIT_128S_69MS K AND NOT (INA219_CONFIG_BADCRES_MASK K) = 0"
    and "INA219_CONFIG_SADCRES_MASK K AND INA219_CONFIG_BADCRES_MASK K = 0"
  shows "dev_regs (setAmpInstant K self w) (ina219_i2caddr self) INA219_REG_CONFIG
           AND NOT (INA219_CONFIG_SADCRES_MASK K) =
         dev_regs w (ina219_i2caddr self) INA219_REG_CONFIG
           AND NOT (INA219_CONFIG_SADCRES_MASK K) \<and>
         dev_regs (setAmpInstant K self w) (ina219_i2caddr self) INA219_REG_CONFIG
           AND INA219_CONFIG_BADCRES_MASK K =
         dev_regs w (ina219_i2caddr self) INA219_REG_CONFIG
           AND INA219_CONFIG_BADCRES_MASK K \<and>
         dev_regs (setAmpAverage K self w) (ina219_i2caddr self) INA219_REG_CONFIG
           AND NOT (INA219_CONFIG_SADCRES_MASK K) =
         dev_regs w (ina219_i2caddr self) INA219_REG_CONFIG
           AND NOT (INA219_CONFIG_SADCRES_MASK K) \<and>
         dev_regs (setAmpAverage K self w) (ina219_i2caddr self) INA219_REG_CONFIG
           AND INA219_CONFIG_BADCRES_MASK K =
         dev_regs w (ina219_i2caddr self) INA219_REG_CONFIG
           AND INA219_CONFIG_BADCRES_MASK K \<and>
         dev_regs (setVoltInstant K self w) (ina219_i2caddr self) INA219_REG_CONFIG
           AND NOT (INA219_CONFIG_BADCRES_MASK K) =
         dev_regs w (ina219_i2caddr self) INA219_REG_CONFIG
           AND NOT (INA219_CONFIG_BADCRES_MASK K) \<and>
         dev_regs (setVoltInstant K self w) (ina219_i2caddr self) INA219_REG_CONFIG
           AND INA219_CONFIG_SADCRES_MASK K =
         dev_regs w (ina219_i2caddr self) INA219_REG_CONFIG
           AND INA219_CONFIG_SADCRES_MASK K \<and>
         dev_regs (setVoltAverage K self w) (ina219_i2caddr self) INA219_REG_CONFIG
           AND NOT (INA219_CONFIG_BADCRES_MASK K) =
         dev_regs w (ina219_i2caddr self) INA219_REG_CONFIG
           AND NOT (INA219_CONFIG_BADCRES_MASK K) \<and>
         dev_regs (setVoltAverage K self w) (ina219_i2caddr self) INA219_REG_CONFIG
           AND INA219_CONFIG_SADCRES_MASK K =
         dev_regs w (ina219_i2caddr self) INA219_REG_CONFIG
           AND INA219_CONFIG_SADCRES_MASK K"
proof -
  from assms(5) have d: "INA219_CONFIG_BADCRES_MASK K AND INA219_CONFIG_SADCRES_MASK K = 0"
    by (simp add: and.commute)
  show ?thesis
    unfolding toggle_regs
    by (simp add: rmw_outside rmw_other assms d)
qed

theorem sampling_toggles_isolated_witness:
  "INA219_CONFIG_SADCRES_12BIT_1S_532US example_macros AND
     NOT (INA219_CONFIG_SADCRES_MASK example_macros) = 0 \<and>
   INA219_CONFIG_SADCRES_12BIT_128S_69MS example_macros AND
     NOT (INA219_CONFIG_SADCRES_MASK example_macros) = 0 \<and>
   INA219_CONFIG_BADCRES_12BIT example_macros AND
     NOT (INA219_CONFIG_BADCRES_MASK example_macros) = 0 \<and>
   INA219_CONFIG_BADCRES_12BIT_128S_69MS example_macros AND
     NOT (INA219_CONFIG_BADCRES_MASK example_macros) = 0 \<and>
   INA219_CONFIG_SADCRES_MASK example_macros AND
     INA219_CONFIG_BADCRES_MASK example_macros = 0 \<and>
   dev_regs (setAmpAverage example_macros handle0
       (device_stores 0x40 INA219_REG_CONFIG 0x3C1F wire0)) 0x40 INA219_REG_CONFIG
     AND NOT 0x0078 = 0x3C07 \<and>
   dev_regs (setAmpAverage example_macros handle0
       (device_stores 0x40 INA219_REG_CONFIG 0x3C1F wire0)) 0x40 INA219_REG_CONFIG
     AND 0x0780 = 0x0400 \<and>
   dev_regs (setVoltAverage example_macros handle0
       (device_stores 0x40 INA219_REG_CONFIG 0x3C1F wire0)) 0x40 INA219_REG_CONFIG
     AND NOT 0x0780 = 0x381F \<and>
   dev_regs (setVoltAverage example_macros handle0
       (device_stores 0x40 INA219_REG_CONFIG 0x3C1F wire0)) 0x40 INA219_REG_CONFIG
     AND 0x0078 = 0x0018"
proof -
  have h: "INA219_CONFIG_SADCRES_12BIT_1S_532US example_macros AND
     NOT (INA219_CONFIG_SADCRES_MASK example_macros) = 0"
   "INA219_CONFIG_SADCRES_12BIT_128S_69MS example_macros AND
     NOT (INA219_CONFIG_SADCRES_MASK example_macros) = 0"
   "INA219_CONFIG_BADCRES_12BIT example_macros AND
     NOT (INA219_CONFIG_BADCRES_MASK example_macros) = 0"
   "INA219_CONFIG_BADCRES_12BIT_128S_69MS example_macros AND
     NOT (INA219_CONFIG_BADCRES_MASK example_macros) = 0"
   "INA219_CONFIG_SADCRES_MASK example_macros AND
     INA219_CONFIG_BADCRES_MASK example_macros = 0"
    by (simp_all add: example_macros_def)
  have a: "ina219_i2caddr handle0 = 0x40" by (simp add: handle0_def Adafruit_INA219_def)
  have v: "dev_regs (device_stores 0x40 INA219_REG_CONFIG 0x3C1F wire0) 0x40 INA219_REG_CONFIG = 0x3C1F"
    by (simp add: device_stores_def)
  from sampling_toggles_isolated [OF h, of handle0 "device_stores 0x40 INA219_REG_CONFIG 0x3C1F wire0"]
  show ?thesis
    unfolding a v by (simp add: h example_macros_def)
qed


end
